theory Spec2Isabelle
  imports Main
begin

section \<open>JavaScript values\<close>

text \<open>
  The route handlers of \<^verbatim>\<open>registry/routes/index.js\<close> are dynamically typed: they test
  values for truthiness, read properties of objects handed back by callbacks and pass
  whatever a component exported on to the next stage. The values are therefore one
  datatype. An object is an association list (the first binding of a key is the one a
  read sees). A function created by component code inside \<^verbatim>\<open>vm.runInNewContext\<close> is a
  reference \<open>Closure n\<close>; what it does when called is given by the collaborators below.
  The host objects the handlers inject into a sandbox context are kept symbolic:
  \<open>RequireWrapper deps\<close> is \<^verbatim>\<open>new RequireWrapper(deps)\<close>, \<open>HostConsole\<close> is Node's
  \<^verbatim>\<open>console\<close>, \<open>Noop\<close> is \<^verbatim>\<open>_.noop\<close> and \<open>JadeRuntime\<close> is
  \<^verbatim>\<open>require('jade/runtime.js')\<close>.
\<close>

datatype jsval =
    Undefined
  | Null
  | Bool bool
  | Num int
  | Str string
  | Obj "(string \<times> jsval) list"
  | Closure nat
  | RequireWrapper jsval
  | HostConsole
  | Noop
  | JadeRuntime

datatype exn = TypeError | Thrown jsval

text \<open>JavaScript truthiness, as \<^verbatim>\<open>if(v)\<close>, \<^verbatim>\<open>!v\<close> and \<^verbatim>\<open>!!v\<close> test it.\<close>

fun truthy :: "jsval \<Rightarrow> bool" where
  "truthy Undefined = False"
| "truthy Null = False"
| "truthy (Bool b) = b"
| "truthy (Num n) = (n \<noteq> 0)"
| "truthy (Str s) = (s \<noteq> [])"
| "truthy _ = True"

text \<open>\<^verbatim>\<open>a || b\<close>\<close>

definition js_or :: "jsval \<Rightarrow> jsval \<Rightarrow> jsval" where
  "js_or a b = (if truthy a then a else b)"

text \<open>
  A property read \<^verbatim>\<open>v.k\<close>: a TypeError on \<^verbatim>\<open>undefined\<close> and \<^verbatim>\<open>null\<close>, the bound
  value on an object that has the key, \<^verbatim>\<open>undefined\<close> otherwise.
\<close>

fun js_member :: "jsval \<Rightarrow> string \<Rightarrow> jsval" where
  "js_member (Obj kvs) k = (case map_of kvs k of None \<Rightarrow> Undefined | Some v \<Rightarrow> v)"
| "js_member _ k = Undefined"

fun get_prop :: "jsval \<Rightarrow> string \<Rightarrow> exn + jsval" where
  "get_prop Undefined k = Inl TypeError"
| "get_prop Null k = Inl TypeError"
| "get_prop v k = Inr (js_member v k)"

text \<open>A chain of property reads \<^verbatim>\<open>v.k1.k2...\<close>, stopping at the first TypeError.\<close>

fun get_path :: "jsval \<Rightarrow> string list \<Rightarrow> exn + jsval" where
  "get_path v [] = Inr v"
| "get_path v (k # ks) =
     (case get_prop v k of Inl e \<Rightarrow> Inl e | Inr w \<Rightarrow> get_path w ks)"

text \<open>\<^verbatim>\<open>_.extend(dst, src)\<close>: every key of \<open>src\<close> is written into \<open>dst\<close>.\<close>

fun put :: "(string \<times> jsval) list \<Rightarrow> string \<Rightarrow> jsval \<Rightarrow> (string \<times> jsval) list" where
  "put [] k v = [(k, v)]"
| "put ((k', v') # kvs) k v = (if k' = k then (k, v) # kvs else (k', v') # put kvs k v)"

fun js_extend :: "jsval \<Rightarrow> jsval \<Rightarrow> jsval" where
  "js_extend (Obj dst) (Obj src) = Obj (foldl (\<lambda>acc (k, v). put acc k v) dst src)"
| "js_extend dst _ = dst"

text \<open>
  Values that can be called. \<^verbatim>\<open>new RequireWrapper(deps)\<close> is injected as \<^verbatim>\<open>require\<close>,
  so it is a function.
\<close>

fun is_function :: "jsval \<Rightarrow> bool" where
  "is_function (Closure n) = True"
| "is_function (RequireWrapper d) = True"
| "is_function Noop = True"
| "is_function _ = False"

text \<open>
  \<^verbatim>\<open>s.replace(pat, rep)\<close> with a string pattern: the first occurrence is replaced.
\<close>

fun replace_first :: "string \<Rightarrow> string \<Rightarrow> string \<Rightarrow> string" where
  "replace_first pat rep [] = (if pat = [] then rep else [])"
| "replace_first pat rep (c # cs) =
     (if take (length pat) (c # cs) = pat then rep @ drop (length pat) (c # cs)
      else c # replace_first pat rep cs)"

section \<open>Data model\<close>

record template_info =
  template_type :: string
  hashKey :: string

record oc_files =
  template :: template_info
  dataProvider :: jsval

record oc_info =
  parameters :: jsval
  files :: oc_files

record component =
  name :: string
  version :: string
  oc :: oc_info

record conf =
  baseUrl :: string
  local :: bool
  env :: jsval

record upload =
  path :: string
  upload_name :: string

text \<open>
  The parts of \<^verbatim>\<open>req\<close> the handlers read: \<^verbatim>\<open>req.params.componentName\<close>,
  \<^verbatim>\<open>req.params.componentVersion\<close>, \<^verbatim>\<open>req.query\<close>, \<^verbatim>\<open>req.headers.accept\<close>,
  \<^verbatim>\<open>req.headers['accept-language']\<close> and \<^verbatim>\<open>req.files\<close>; and of \<^verbatim>\<open>res\<close>:
  \<^verbatim>\<open>res.conf\<close> and \<^verbatim>\<open>res.injectedDependencies\<close>.
\<close>

record request =
  params_componentName :: jsval
  params_componentVersion :: jsval
  query :: jsval
  headers_accept :: jsval
  headers_accept_language :: jsval
  req_files :: "(string \<times> upload) list"

record res =
  res_conf :: conf
  injectedDependencies :: jsval

text \<open>
  What a handler leaves behind: \<^verbatim>\<open>res.json(status, body)\<close> together with the
  \<^verbatim>\<open>res.errorDetails\<close> it set before; an exception nothing caught; or no response at
  all, when a callback it waits for is never called. \<^verbatim>\<open>format(template, args)\<close> of the
  stringformat library is kept symbolic.
\<close>

datatype details = NoDetails | Details jsval | Format string "jsval list"

record response =
  status :: nat
  body :: jsval
  errorDetails :: details

datatype outcome = Responded response | Uncaught exn | NoResponse

text \<open>
  What a function called with \<^verbatim>\<open>(arguments..., callback)\<close> does: it calls
  \<^verbatim>\<open>callback(err, value)\<close> once, throws before returning, throws in a later tick, or
  never calls back. (A function that calls back more than once, or calls back and then
  throws, is outside the model.)
\<close>

datatype callback_outcome =
    CallsBack jsval jsval
  | Throws exn
  | ThrowsLater exn
  | NeverCallsBack

text \<open>The calls a handler makes to its collaborators, in the order it makes them.\<close>

datatype event =
    GetComponent jsval jsval
  | CacheGet string string
  | CacheSet string string jsval
  | GetDataProvider string string
  | GetCompiledView string string
  | RunInNewContext jsval jsval
  | Call jsval jsval
  | RenderTemplate jsval jsval jsval
  | Extract string string
  | PublishComponent string jsval jsval

text \<open>
  The module state is the \<^verbatim>\<open>nice-cache\<close> instance created by \<^verbatim>\<open>exports.init\<close>: a
  store from (type, key) to a value.
\<close>

type_synonym cache = "string \<times> string \<Rightarrow> jsval option"

text \<open>\<^verbatim>\<open>cache.get(type, key)\<close>: \<^verbatim>\<open>undefined\<close> when nothing is stored.\<close>

definition cache_get :: "cache \<Rightarrow> string \<Rightarrow> string \<Rightarrow> jsval" where
  "cache_get ch ty key = (case ch (ty, key) of None \<Rightarrow> Undefined | Some v \<Rightarrow> v)"

text \<open>
  \<^verbatim>\<open>cache.set(type, key, value)\<close>. The cache library is not part of the registry. With
  a truthy value it stores the value under (type, key). With a falsy one it reads the
  call as the two-argument form \<^verbatim>\<open>set(key, value)\<close>: the arguments shift, the entry
  lands in the library's default type, and the entry of (type, key) stays as it was.
\<close>

definition cache_set :: "string \<Rightarrow> string \<Rightarrow> jsval \<Rightarrow> cache \<Rightarrow> cache" where
  "cache_set ty key v ch =
     (if truthy v then ch((ty, key) \<mapsto> v) else ch((''default'', ty) \<mapsto> Str key))"

text \<open>
  A handler run: how it ended, the collaborator calls it made, and the cache it left.
\<close>

record run =
  outcome :: outcome
  events :: "event list"
  cache_after :: cache

definition respond :: "nat \<Rightarrow> jsval \<Rightarrow> details \<Rightarrow> cache \<Rightarrow> run" where
  "respond code b d ch =
     \<lparr>outcome = Responded \<lparr>status = code, body = b, errorDetails = d\<rparr>,
      events = [], cache_after = ch\<rparr>"

definition uncaught :: "exn \<Rightarrow> cache \<Rightarrow> run" where
  "uncaught e ch = \<lparr>outcome = Uncaught e, events = [], cache_after = ch\<rparr>"

definition no_response :: "cache \<Rightarrow> run" where
  "no_response ch = \<lparr>outcome = NoResponse, events = [], cache_after = ch\<rparr>"

text \<open>The calls \<open>evs\<close> were made first, then the run \<open>r\<close> followed.\<close>

definition after :: "event list \<Rightarrow> run \<Rightarrow> run" where
  "after evs r = r\<lparr>events := evs @ events r\<rparr>"

text \<open>
  The collaborators of the handlers, none of them under \<^verbatim>\<open>src/\<close>: the repository, the
  sanitiser, the validator, the url builder, the client, the accept-language parser,
  tar.gz, Node's \<^verbatim>\<open>vm\<close> and \<^verbatim>\<open>path\<close>. Each is a parameter. A function that takes a
  callback \<^verbatim>\<open>function(err, value)\<close> and belongs to the registry is taken to call it
  once and is given by the pair \<open>(err, value)\<close> it passes; the value is absent
  (\<open>None\<close>, \<open>Undefined\<close>) when the function reports an error only.
  \<open>runInNewContext code context\<close> is either the exception the code throws or the
  context as the code leaves it. \<open>call f arg\<close> is what the function value \<open>f\<close> does when
  called as \<^verbatim>\<open>f(arg, callback)\<close>, \<open>renderTemplate\<close> what
  \<^verbatim>\<open>client.renderTemplate(template, data, options, callback)\<close> does.
  \<open>validateComponentParameters\<close> gives \<^verbatim>\<open>(result.isValid, result.errors.message)\<close>,
  \<open>validateVersion\<close> and \<open>validatePackage\<close> give \<^verbatim>\<open>.isValid\<close> of their results.
\<close>

record collaborators =
  getComponent :: "jsval \<Rightarrow> jsval \<Rightarrow> jsval \<times> component option"
  getDataProvider :: "string \<Rightarrow> string \<Rightarrow> jsval \<times> jsval"
  getCompiledView :: "string \<Rightarrow> string \<Rightarrow> jsval \<times> jsval"
  getStaticFilePath :: "string \<Rightarrow> string \<Rightarrow> string \<Rightarrow> string"
  publishComponent :: "string \<Rightarrow> jsval \<Rightarrow> jsval \<Rightarrow> jsval \<times> jsval"
  sanitiseComponentParameters :: "jsval \<Rightarrow> jsval \<Rightarrow> jsval"
  validateComponentParameters :: "jsval \<Rightarrow> jsval \<Rightarrow> bool \<times> jsval"
  validateVersion :: "jsval \<Rightarrow> bool"
  validatePackage :: "(string \<times> upload) list \<Rightarrow> bool"
  urlBuilder_component :: "jsval \<Rightarrow> string \<Rightarrow> jsval"
  acceptLanguageParser_parse :: "jsval \<Rightarrow> jsval"
  runInNewContext :: "jsval \<Rightarrow> jsval \<Rightarrow> exn + jsval"
  call :: "jsval \<Rightarrow> jsval \<Rightarrow> callback_outcome"
  renderTemplate :: "jsval \<Rightarrow> jsval \<Rightarrow> jsval \<Rightarrow> callback_outcome"
  targz_extract :: "string \<Rightarrow> string \<Rightarrow> jsval"
  path_resolve :: "string list \<Rightarrow> string"

section \<open>The render route: \<^verbatim>\<open>exports.component\<close>\<close>

text \<open>\<^verbatim>\<open>format('{0}/{1}/' + file, name, version)\<close>\<close>

definition format_key :: "string \<Rightarrow> string \<Rightarrow> string \<Rightarrow> string" where
  "format_key n v file = n @ ''/'' @ v @ ''/'' @ file"

definition prerendered :: jsval where
  "prerendered = Str ''application/vnd.oc.prerendered+json''"

text \<open>
  \<^verbatim>\<open>returnResult\<close> (lines 138-145): the error \<^verbatim>\<open>client.renderTemplate\<close> calls back
  with is not looked at.
\<close>

definition returnResult ::
  "collaborators \<Rightarrow> jsval \<Rightarrow> jsval \<Rightarrow> jsval \<Rightarrow> jsval \<Rightarrow> cache \<Rightarrow> run" where
  "returnResult W response data options tpl ch =
     after [RenderTemplate tpl data options]
       (case renderTemplate W tpl data options of
          CallsBack err html \<Rightarrow>
            respond 200
              (js_extend response
                 (Obj [(''html'', html), (''renderMode'', Str ''rendered'')]))
              NoDetails ch
        | Throws e \<Rightarrow> uncaught e ch
        | ThrowsLater e \<Rightarrow> uncaught e ch
        | NeverCallsBack \<Rightarrow> no_response ch)"

text \<open>
  The template context of line 151 and the data-provider context of lines 184-190.
\<close>

definition template_context :: jsval where
  "template_context = Obj [(''jade'', JadeRuntime)]"

definition data_context :: "res \<Rightarrow> jsval" where
  "data_context rs =
     Obj [(''require'', RequireWrapper (injectedDependencies rs)),
          (''module'', Obj [(''exports'', Obj [])]),
          (''console'',
             if local (res_conf rs) then HostConsole else Obj [(''log'', Noop)])]"

text \<open>
  The objects built in lines 103-114 and 131-136: \<^verbatim>\<open>componentHref\<close>, \<^verbatim>\<open>response\<close>
  and \<^verbatim>\<open>options\<close>. \<open>rv\<close> is \<^verbatim>\<open>requestedComponent.version\<close>, \<open>ps\<close> the sanitised
  parameters.
\<close>

definition componentHref :: "collaborators \<Rightarrow> res \<Rightarrow> component \<Rightarrow> jsval \<Rightarrow> jsval \<Rightarrow> jsval" where
  "componentHref W rs c rv ps =
     urlBuilder_component W
       (Obj [(''name'', Str (name c)), (''version'', rv), (''parameters'', ps)])
       (baseUrl (res_conf rs))"

definition response_base :: "collaborators \<Rightarrow> res \<Rightarrow> component \<Rightarrow> jsval \<Rightarrow> jsval \<Rightarrow> jsval" where
  "response_base W rs c rv ps =
     Obj [(''href'', componentHref W rs c rv ps),
          (''type'', Str (if local (res_conf rs) then ''oc-component-local''
                          else ''oc-component'')),
          (''version'', Str (version c)),
          (''requestVersion'', rv)]"

definition render_options :: "collaborators \<Rightarrow> res \<Rightarrow> component \<Rightarrow> jsval \<Rightarrow> jsval \<Rightarrow> jsval" where
  "render_options W rs c rv ps =
     Obj [(''href'', componentHref W rs c rv ps),
          (''key'', Str (hashKey (template (files (oc c))))),
          (''version'', Str (version c)),
          (''templateType'', Str (template_type (template (files (oc c)))))]"

text \<open>
  \<^verbatim>\<open>returnComponent\<close> (lines 97-159), the callback the data stage ends in.
\<close>

definition returnComponent ::
  "collaborators \<Rightarrow> request \<Rightarrow> res \<Rightarrow> component \<Rightarrow> jsval \<Rightarrow> jsval \<Rightarrow>
     jsval \<Rightarrow> jsval \<Rightarrow> cache \<Rightarrow> run" where
  "returnComponent W rq rs c rv ps err data ch =
     (if truthy err then
        respond 502 (Obj [(''error'', Str ''component data resolving error'')])
          (Details (Str ''component data resolving error'')) ch
      else if headers_accept rq = prerendered then
        respond 200
          (js_extend (response_base W rs c rv ps)
             (Obj [(''data'', data),
                   (''template'',
                      Obj [(''src'', Str (getStaticFilePath W (name c) (version c)
                                            ''template.js'')),
                           (''type'', Str (template_type (template (files (oc c))))),
                           (''key'', Str (hashKey (template (files (oc c)))))]),
                   (''renderMode'', Str ''pre-rendered'')]))
          NoDetails ch
      else
        let cacheKey = format_key (name c) (version c) ''template.js'';
            cached = cache_get ch ''file-contents'' cacheKey;
            key = hashKey (template (files (oc c)));
            options = render_options W rs c rv ps
        in
        after [CacheGet ''file-contents'' cacheKey]
          (if truthy cached \<and> \<not> local (res_conf rs) then
             returnResult W (response_base W rs c rv ps) data options cached ch
           else
             let (err2, templateText) = getCompiledView W (name c) (version c) in
             after [GetCompiledView (name c) (version c),
                    RunInNewContext templateText template_context]
               (case runInNewContext W templateText template_context of
                  Inl e \<Rightarrow> uncaught e ch
                | Inr context \<Rightarrow>
                    (case get_path context [''oc'', ''components'', key] of
                       Inl e \<Rightarrow> uncaught e ch
                     | Inr tpl \<Rightarrow>
                         after [CacheSet ''file-contents'' cacheKey tpl]
                           (returnResult W (response_base W rs c rv ps) data options tpl
                              (cache_set ''file-contents'' cacheKey tpl ch))))))"

text \<open>
  Calling a value as \<^verbatim>\<open>f(reqObj, returnComponent)\<close> (lines 176 and 195): a TypeError
  when it is not a function.
\<close>

definition invoke ::
  "collaborators \<Rightarrow> request \<Rightarrow> res \<Rightarrow> component \<Rightarrow> jsval \<Rightarrow> jsval \<Rightarrow>
     jsval \<Rightarrow> jsval \<Rightarrow> cache \<Rightarrow> run" where
  "invoke W rq rs c rv ps f reqObj ch =
     (if \<not> is_function f then uncaught TypeError ch
      else
        after [Call f reqObj]
          (case call W f reqObj of
             CallsBack err data \<Rightarrow> returnComponent W rq rs c rv ps err data ch
           | Throws e \<Rightarrow> uncaught e ch
           | ThrowsLater e \<Rightarrow> uncaught e ch
           | NeverCallsBack \<Rightarrow> no_response ch))"

text \<open>\<^verbatim>\<open>reqObj\<close> (lines 167-173).\<close>

definition reqObj_of :: "collaborators \<Rightarrow> request \<Rightarrow> res \<Rightarrow> component \<Rightarrow> jsval \<Rightarrow> jsval" where
  "reqObj_of W rq rs c ps =
     Obj [(''acceptLanguage'', acceptLanguageParser_parse W (headers_accept_language rq)),
          (''baseUrl'', Str (baseUrl (res_conf rs))),
          (''env'', env (res_conf rs)),
          (''params'', ps),
          (''staticPath'',
             Str (replace_first ''https:'' ''''
                    (getStaticFilePath W (name c) (version c) '''')))]"

text \<open>
  The data stage (lines 161-198), entered once the component is found and its
  parameters are valid.
\<close>

definition data_stage ::
  "collaborators \<Rightarrow> request \<Rightarrow> res \<Rightarrow> component \<Rightarrow> jsval \<Rightarrow> jsval \<Rightarrow> cache \<Rightarrow> run" where
  "data_stage W rq rs c rv ps ch =
     (if \<not> truthy (dataProvider (files (oc c))) then
        returnComponent W rq rs c rv ps Null (Obj []) ch
      else
        let cacheKey = format_key (name c) (version c) ''server.js'';
            cached = cache_get ch ''file-contents'' cacheKey;
            reqObj = reqObj_of W rq rs c ps
        in
        after [CacheGet ''file-contents'' cacheKey]
          (if truthy cached \<and> \<not> local (res_conf rs) then
             invoke W rq rs c rv ps cached reqObj ch
           else
             let (err, dataProcessorJs) = getDataProvider W (name c) (version c) in
             after [GetDataProvider (name c) (version c)]
               (if truthy err then
                  respond 502 (Obj [(''error'', Str ''component resolving error'')])
                    (Details (Str ''component resolving error'')) ch
                else
                  after [RunInNewContext dataProcessorJs (data_context rs)]
                    (case runInNewContext W dataProcessorJs (data_context rs) of
                       Inl e \<Rightarrow> uncaught e ch
                     | Inr context \<Rightarrow>
                         (case get_path context [''module'', ''exports'', ''data''] of
                            Inl e \<Rightarrow> uncaught e ch
                          | Inr processData \<Rightarrow>
                              after [CacheSet ''file-contents'' cacheKey processData]
                                (invoke W rq rs c rv ps processData reqObj
                                   (cache_set ''file-contents'' cacheKey processData
                                      ch)))))))"

text \<open>
  \<^verbatim>\<open>exports.component\<close> (lines 68-200). \<open>requested_version\<close> is
  \<^verbatim>\<open>req.params.componentVersion || ''\<close>.
\<close>

definition requested_version :: "request \<Rightarrow> jsval" where
  "requested_version rq = js_or (params_componentVersion rq) (Str '''')"

definition component_route :: "collaborators \<Rightarrow> request \<Rightarrow> res \<Rightarrow> cache \<Rightarrow> run" where
  "component_route W rq rs ch =
     (let rn = params_componentName rq;
          rv = requested_version rq
      in
      after [GetComponent rn rv]
        (case getComponent W rn rv of (err, found) \<Rightarrow>
           if truthy err then respond 404 (Obj [(''err'', err)]) (Details err) ch
           else
             (case found of
                None \<Rightarrow> uncaught TypeError ch
              | Some c \<Rightarrow>
                  let ps = sanitiseComponentParameters W (query rq) (parameters (oc c));
                      (isValid, message) =
                        validateComponentParameters W ps (parameters (oc c))
                  in
                  if \<not> isValid then
                    respond 400 (Obj [(''error'', message)]) (Details message) ch
                  else data_stage W rq rs c rv ps ch)))"

section \<open>The publish route: \<^verbatim>\<open>exports.publish\<close>\<close>

text \<open>
  \<^verbatim>\<open>exports.publish\<close> (lines 231-282). \<^verbatim>\<open>files[_.keys(files)[0]]\<close> is the first
  uploaded file; reading \<^verbatim>\<open>.path\<close> of it is a TypeError when there is none.
  \<open>packagePath\<close>, \<open>packageUntarOutput\<close> and \<open>packageOutput\<close> are the paths of lines
  250-252. The
  error \<^verbatim>\<open>publishComponent\<close> calls back with is truthy where \<^verbatim>\<open>err.code\<close> and
  \<^verbatim>\<open>err.msg\<close> are read, so the reads cannot throw.
\<close>

definition packagePath :: "collaborators \<Rightarrow> upload \<Rightarrow> string" where
  "packagePath W packageFile = path_resolve W [path packageFile]"

definition packageUntarOutput :: "collaborators \<Rightarrow> upload \<Rightarrow> string" where
  "packageUntarOutput W packageFile =
     path_resolve W
       [path packageFile, ''..'', replace_first ''.tar.gz'' '''' (upload_name packageFile)]"

definition packageOutput :: "collaborators \<Rightarrow> upload \<Rightarrow> string" where
  "packageOutput W packageFile = path_resolve W [packageUntarOutput W packageFile, ''_package'']"

definition publish_route :: "collaborators \<Rightarrow> request \<Rightarrow> res \<Rightarrow> cache \<Rightarrow> run" where
  "publish_route W rq rs ch =
     (if \<not> truthy (params_componentName rq) \<or> \<not> truthy (params_componentVersion rq) then
        respond 409 (Obj [(''error'', Str ''malformed request'')])
          (Details (Str ''malformed request'')) ch
      else if \<not> validateVersion W (params_componentVersion rq) then
        respond 409 (Obj [(''error'', Str ''not a valid version'')])
          (Details (Str ''not a valid version'')) ch
      else if \<not> validatePackage W (req_files rq) then
        respond 409 (Obj [(''error'', Str ''package is not valid'')])
          (Details (Str ''package is not valid'')) ch
      else
        case req_files rq of
          [] \<Rightarrow> uncaught TypeError ch
        | (field, packageFile) # rest \<Rightarrow>
            let err = targz_extract W (packagePath W packageFile)
                        (packageUntarOutput W packageFile)
            in
            after [Extract (packagePath W packageFile) (packageUntarOutput W packageFile)]
              (if truthy err then
                 respond 500
                   (Obj [(''error'', Str ''package file is not valid''), (''details'', err)])
                   (Format ''Package file is not valid: {0}'' [err]) ch
               else
                 let (err, result) =
                       publishComponent W (packageOutput W packageFile)
                         (params_componentName rq) (params_componentVersion rq)
                 in
                 after [PublishComponent (packageOutput W packageFile)
                          (params_componentName rq) (params_componentVersion rq)]
                   (if truthy err then
                      if js_member err ''code'' = Str ''not_allowed'' then
                        respond 403 (Obj [(''error'', js_member err ''msg'')])
                          (Format ''Publish not allowed: {0}'' [js_member err ''msg'']) ch
                      else if js_member err ''code'' = Str ''already_exists'' then
                        respond 403 (Obj [(''error'', js_member err ''msg'')])
                          (Format ''Component already exists: {0}'' [js_member err ''msg''])
                          ch
                      else if js_member err ''code'' = Str ''name_not_valid'' then
                        respond 409 (Obj [(''error'', js_member err ''msg'')])
                          (Format ''Component name not valid: {0}'' [js_member err ''msg''])
                          ch
                      else
                        respond 500 (Obj [(''error'', js_member err ''msg'')])
                          (Format ''Publish failed: {0}'' [js_member err ''msg'']) ch
                    else respond 200 (Obj [(''ok'', Bool True)]) NoDetails ch)))"

section \<open>Classifying the calls of a run\<close>

text \<open>
  The sandbox's data path: the fetch of the data-provider source, its run in the
  data-provider context, and the call of a data-provider function.
\<close>

fun data_path_event :: "res \<Rightarrow> event \<Rightarrow> bool" where
  "data_path_event rs (GetDataProvider n v) = True"
| "data_path_event rs (RunInNewContext code context) = (context = data_context rs)"
| "data_path_event rs (Call f arg) = True"
| "data_path_event rs _ = False"

text \<open>
  The template sandbox: the fetch of the compiled view, its run in the template
  context, and the call of the render function.
\<close>

fun template_sandbox_event :: "event \<Rightarrow> bool" where
  "template_sandbox_event (GetCompiledView n v) = True"
| "template_sandbox_event (RunInNewContext code context) = (context = template_context)"
| "template_sandbox_event (RenderTemplate tpl data options) = True"
| "template_sandbox_event _ = False"

section \<open>Vocabulary of the properties\<close>

text \<open>\<^verbatim>\<open>params\<close> of line 87: the sanitised parameters of the request.\<close>

definition sanitised :: "collaborators \<Rightarrow> request \<Rightarrow> component \<Rightarrow> jsval" where
  "sanitised W rq c = sanitiseComponentParameters W (query rq) (parameters (oc c))"

text \<open>
  The request gets past lines 78-95 with the component \<open>c\<close>: the lookup reports no
  error and gives \<open>c\<close>, and the sanitised parameters are valid.
\<close>

definition resolved :: "collaborators \<Rightarrow> request \<Rightarrow> component \<Rightarrow> bool" where
  "resolved W rq c \<longleftrightarrow>
     \<not> truthy (fst (getComponent W (params_componentName rq) (requested_version rq))) \<and>
     snd (getComponent W (params_componentName rq) (requested_version rq)) = Some c \<and>
     fst (validateComponentParameters W (sanitised W rq c) (parameters (oc c)))"

text \<open>
  The bodies of the two successful answers, written out: the prerendered one of lines
  117-125 and the rendered one of lines 140-143.
\<close>

definition prerendered_body ::
  "collaborators \<Rightarrow> request \<Rightarrow> res \<Rightarrow> component \<Rightarrow> jsval \<Rightarrow> jsval" where
  "prerendered_body W rq rs c data =
     Obj [(''href'',
             urlBuilder_component W
               (Obj [(''name'', Str (name c)), (''version'', requested_version rq),
                     (''parameters'', sanitised W rq c)])
               (baseUrl (res_conf rs))),
          (''type'', Str (if local (res_conf rs) then ''oc-component-local''
                          else ''oc-component'')),
          (''version'', Str (version c)),
          (''requestVersion'', requested_version rq),
          (''data'', data),
          (''template'',
             Obj [(''src'', Str (getStaticFilePath W (name c) (version c) ''template.js'')),
                  (''type'', Str (template_type (template (files (oc c))))),
                  (''key'', Str (hashKey (template (files (oc c)))))]),
          (''renderMode'', Str ''pre-rendered'')]"

definition rendered_body ::
  "collaborators \<Rightarrow> request \<Rightarrow> res \<Rightarrow> component \<Rightarrow> jsval \<Rightarrow> jsval" where
  "rendered_body W rq rs c html =
     Obj [(''href'',
             urlBuilder_component W
               (Obj [(''name'', Str (name c)), (''version'', requested_version rq),
                     (''parameters'', sanitised W rq c)])
               (baseUrl (res_conf rs))),
          (''type'', Str (if local (res_conf rs) then ''oc-component-local''
                          else ''oc-component'')),
          (''version'', Str (version c)),
          (''requestVersion'', requested_version rq),
          (''html'', html),
          (''renderMode'', Str ''rendered'')]"

text \<open>A run that answered 200 with the given body.\<close>

definition ok_with :: "jsval \<Rightarrow> outcome" where
  "ok_with b = Responded \<lparr>status = 200, body = b, errorDetails = NoDetails\<rparr>"

section \<open>A sample registry\<close>

text \<open>
  Concrete collaborators on which the properties below are evaluated: a repository with
  the components \<open>banner\<close> (no data-provider), \<open>greeter\<close> (a data-provider),
  \<open>crasher\<close> (its data-provider source throws when run), \<open>flaky\<close> (its compiled
  view cannot be fetched), \<open>badview\<close> (its render function reports an error),
  \<open>orphan\<close> (its data-provider source cannot be fetched) and \<open>grumpy\<close> (its
  data-provider calls back with an error).
\<close>

definition demo_component :: "string \<Rightarrow> string \<Rightarrow> jsval \<Rightarrow> string \<Rightarrow> component" where
  "demo_component n v dp k =
     \<lparr>name = n, version = v,
      oc = \<lparr>parameters = Obj [],
            files = \<lparr>template = \<lparr>template_type = ''jade'', hashKey = k\<rparr>,
                     dataProvider = dp\<rparr>\<rparr>\<rparr>"

definition demo_lookup :: "jsval \<Rightarrow> jsval \<Rightarrow> jsval \<times> component option" where
  "demo_lookup n v =
     (if n = Str ''banner'' \<and> (v = Str '''' \<or> v = Str ''1.0.0'') then
        (Null, Some (demo_component ''banner'' ''1.0.0'' Undefined ''abc123''))
      else if n = Str ''greeter'' \<and> (v = Str '''' \<or> v = Str ''2.0.0'') then
        (Null, Some (demo_component ''greeter'' ''2.0.0'' (Str ''server.js'') ''def456''))
      else if n = Str ''crasher'' then
        (Null, Some (demo_component ''crasher'' ''1.0.0'' (Str ''server.js'') ''aaa111''))
      else if n = Str ''flaky'' then
        (Null, Some (demo_component ''flaky'' ''1.0.0'' Undefined ''bbb222''))
      else if n = Str ''badview'' then
        (Null, Some (demo_component ''badview'' ''1.0.0'' Undefined ''ccc333''))
      else if n = Str ''orphan'' then
        (Null, Some (demo_component ''orphan'' ''1.0.0'' (Str ''server.js'') ''ddd444''))
      else if n = Str ''grumpy'' then
        (Null, Some (demo_component ''grumpy'' ''1.0.0'' (Str ''server.js'') ''eee555''))
      else (Str ''component not found'', None))"

definition demo_vm :: "jsval \<Rightarrow> jsval \<Rightarrow> exn + jsval" where
  "demo_vm code context =
     (if code = Str ''module.exports.data = greet'' then
        Inr (js_extend context
               (Obj [(''module'', Obj [(''exports'', Obj [(''data'', Closure 1)])])]))
      else if code = Str ''throw boom'' then Inl (Thrown (Str ''boom''))
      else if code = Str ''module.exports.data = fail'' then
        Inr (js_extend context
               (Obj [(''module'', Obj [(''exports'', Obj [(''data'', Closure 5)])])]))
      else if code = Str ''view banner'' then
        Inr (js_extend context
               (Obj [(''oc'', Obj [(''components'', Obj [(''abc123'', Closure 2)])])]))
      else if code = Str ''view greeter'' then
        Inr (js_extend context
               (Obj [(''oc'', Obj [(''components'', Obj [(''def456'', Closure 3)])])]))
      else if code = Str ''view badview'' then
        Inr (js_extend context
               (Obj [(''oc'', Obj [(''components'', Obj [(''ccc333'', Closure 4)])])]))
      else Inr context)"

definition demo_paths :: "string list \<Rightarrow> string" where
  "demo_paths segs = foldr (\<lambda>s acc. if acc = [] then s else s @ ''/'' @ acc) segs []"

definition demo :: collaborators where
  "demo = \<lparr>
     getComponent = demo_lookup,
     getDataProvider = (\<lambda>n v.
        if n = ''greeter'' then (Null, Str ''module.exports.data = greet'')
        else if n = ''crasher'' then (Null, Str ''throw boom'')
        else if n = ''grumpy'' then (Null, Str ''module.exports.data = fail'')
        else (Str ''file not found'', Undefined)),
     getCompiledView = (\<lambda>n v.
        if n = ''flaky'' then (Str ''file not found'', Undefined)
        else (Null, Str (''view '' @ n))),
     getStaticFilePath = (\<lambda>n v f. ''https://cdn/'' @ n @ ''/'' @ v @ ''/'' @ f),
     publishComponent = (\<lambda>p n v.
        if n = Str ''locked'' then
          (Obj [(''code'', Str ''not_allowed''), (''msg'', Str ''no rights'')], Undefined)
        else if n = Str ''taken'' then
          (Obj [(''code'', Str ''already_exists''), (''msg'', Str ''published before'')],
           Undefined)
        else if n = Str ''bad name'' then
          (Obj [(''code'', Str ''name_not_valid''), (''msg'', Str ''bad characters'')],
           Undefined)
        else if n = Str ''unlucky'' then
          (Obj [(''code'', Str ''store_down''), (''msg'', Str ''store unavailable'')],
           Undefined)
        else (Null, Undefined)),
     sanitiseComponentParameters = (\<lambda>ps schema. ps),
     validateComponentParameters = (\<lambda>ps schema. (True, Undefined)),
     validateVersion = (\<lambda>v. v = Str ''1.0.0'' \<or> v = Str ''2.0.0''),
     validatePackage = (\<lambda>fs. fs \<noteq> []),
     urlBuilder_component = (\<lambda>c b.
        case (js_member c ''name'', js_member c ''version'') of
          (Str n, Str v) \<Rightarrow> Str (b @ n @ (if v = [] then [] else ''/'' @ v))
        | _ \<Rightarrow> Undefined),
     acceptLanguageParser_parse = (\<lambda>h. Obj []),
     runInNewContext = demo_vm,
     call = (\<lambda>f arg.
        if f = Closure 1 then CallsBack Null (Obj [(''greeting'', Str ''hello'')])
        else if f = Closure 5 then CallsBack (Str ''upstream down'') Undefined
        else NeverCallsBack),
     renderTemplate = (\<lambda>tpl data options.
        if tpl = Closure 2 then CallsBack Null (Str ''<div>banner</div>'')
        else if tpl = Closure 3 then CallsBack Null (Str ''<p>hello</p>'')
        else CallsBack (Str ''render failed'') Undefined),
     targz_extract = (\<lambda>p q.
        if p = ''/tmp/broken.tar.gz'' then Str ''unexpected end of file'' else Undefined),
     path_resolve = demo_paths
   \<rparr>"

definition publish_request :: "jsval \<Rightarrow> jsval \<Rightarrow> (string \<times> upload) list \<Rightarrow> request" where
  "publish_request n v fs =
     \<lparr>params_componentName = n, params_componentVersion = v, query = Obj [],
      headers_accept = Undefined, headers_accept_language = Undefined, req_files = fs\<rparr>"

definition render_request :: "jsval \<Rightarrow> jsval \<Rightarrow> jsval \<Rightarrow> request" where
  "render_request n v accept =
     \<lparr>params_componentName = n, params_componentVersion = v, query = Obj [],
      headers_accept = accept, headers_accept_language = Undefined, req_files = []\<rparr>"

definition package_upload :: "string \<Rightarrow> (string \<times> upload) list" where
  "package_upload file =
     [(''package'', \<lparr>path = ''/tmp/'' @ file, upload_name = file\<rparr>)]"

definition registry_res :: "bool \<Rightarrow> res" where
  "registry_res dev =
     \<lparr>res_conf = \<lparr>baseUrl = ''http://oc/'', local = dev, env = Obj []\<rparr>,
      injectedDependencies = Obj [(''underscore'', Obj [])]\<rparr>"

definition published :: "string \<Rightarrow> string \<Rightarrow> outcome" where
  "published n file =
     outcome (publish_route demo
                (publish_request (Str n) (Str ''1.0.0'') (package_upload file))
                (registry_res False) Map.empty)"

text \<open>A request turned down with \<open>{error: msg}\<close> before any collaborator was called.\<close>

definition rejected :: "nat \<Rightarrow> string \<Rightarrow> cache \<Rightarrow> run" where
  "rejected code msg ch =
     \<lparr>outcome = Responded \<lparr>status = code, body = Obj [(''error'', Str msg)],
                            errorDetails = Details (Str msg)\<rparr>,
      events = [], cache_after = ch\<rparr>"

text \<open>A cache that already holds both compiled artifacts of \<open>greeter\<close>.\<close>

definition warm_cache :: cache where
  "warm_cache =
     cache_set ''file-contents'' ''greeter/2.0.0/template.js'' (Closure 3)
       (cache_set ''file-contents'' ''greeter/2.0.0/server.js'' (Closure 1) Map.empty)"

text \<open>A render request for the latest version, in rendered mode.\<close>

definition rendered_request :: "string \<Rightarrow> request" where
  "rendered_request n = render_request (Str n) Undefined Undefined"

text \<open>A render request served in production mode from an empty cache.\<close>

definition demo_run :: "request \<Rightarrow> run" where
  "demo_run rq = component_route demo rq (registry_res False) Map.empty"


text \<open>Responses and calls expected of the sample registry.\<close>

definition greeter_prerendered :: response where
  "greeter_prerendered =
     \<lparr>status = 200,
      body = Obj [(''href'', Str ''http://oc/greeter''),
                  (''type'', Str ''oc-component''),
                  (''version'', Str ''2.0.0''),
                  (''requestVersion'', Str ''''),
                  (''data'', Obj [(''greeting'', Str ''hello'')]),
                  (''template'',
                     Obj [(''src'', Str ''https://cdn/greeter/2.0.0/template.js''),
                          (''type'', Str ''jade''), (''key'', Str ''def456'')]),
                  (''renderMode'', Str ''pre-rendered'')],
      errorDetails = NoDetails\<rparr>"

definition banner_rendered :: "string \<Rightarrow> string \<Rightarrow> response" where
  "banner_rendered href rv =
     \<lparr>status = 200,
      body = Obj [(''href'', Str href),
                  (''type'', Str ''oc-component''),
                  (''version'', Str ''1.0.0''),
                  (''requestVersion'', Str rv),
                  (''html'', Str ''<div>banner</div>''),
                  (''renderMode'', Str ''rendered'')],
      errorDetails = NoDetails\<rparr>"

definition greeter :: component where
  "greeter = demo_component ''greeter'' ''2.0.0'' (Str ''server.js'') ''def456''"

definition greeter_reqObj :: jsval where
  "greeter_reqObj =
     Obj [(''acceptLanguage'', Obj []), (''baseUrl'', Str ''http://oc/''),
          (''env'', Obj []), (''params'', Obj []),
          (''staticPath'', Str ''//cdn/greeter/2.0.0/'')]"

definition greeter_options :: jsval where
  "greeter_options =
     Obj [(''href'', Str ''http://oc/greeter''), (''key'', Str ''def456''),
          (''version'', Str ''2.0.0''), (''templateType'', Str ''jade'')]"

definition greeter_data :: jsval where
  "greeter_data = Obj [(''greeting'', Str ''hello'')]"

definition greeter_compiles :: "bool \<Rightarrow> event list" where
  "greeter_compiles dev =
     [CacheGet ''file-contents'' ''greeter/2.0.0/server.js'',
      GetDataProvider ''greeter'' ''2.0.0'',
      RunInNewContext (Str ''module.exports.data = greet'') (data_context (registry_res dev)),
      CacheSet ''file-contents'' ''greeter/2.0.0/server.js'' (Closure 1),
      Call (Closure 1) greeter_reqObj,
      CacheGet ''file-contents'' ''greeter/2.0.0/template.js'',
      GetCompiledView ''greeter'' ''2.0.0'',
      RunInNewContext (Str ''view greeter'') template_context,
      CacheSet ''file-contents'' ''greeter/2.0.0/template.js'' (Closure 3),
      RenderTemplate (Closure 3) greeter_data greeter_options]"

text \<open>A render request for the latest version, in prerendered mode.\<close>

definition prerendered_request :: "string \<Rightarrow> request" where
  "prerendered_request n = render_request (Str n) Undefined prerendered"

definition banner :: component where
  "banner = demo_component ''banner'' ''1.0.0'' Undefined ''abc123''"

definition banner_options :: jsval where
  "banner_options =
     Obj [(''href'', Str ''http://oc/banner''), (''key'', Str ''abc123''),
          (''version'', Str ''1.0.0''), (''templateType'', Str ''jade'')]"

definition banner_prerendered :: response where
  "banner_prerendered =
     \<lparr>status = 200,
      body = Obj [(''href'', Str ''http://oc/banner''),
                  (''type'', Str ''oc-component''),
                  (''version'', Str ''1.0.0''),
                  (''requestVersion'', Str ''''),
                  (''data'', Obj []),
                  (''template'',
                     Obj [(''src'', Str ''https://cdn/banner/1.0.0/template.js''),
                          (''type'', Str ''jade''), (''key'', Str ''abc123'')]),
                  (''renderMode'', Str ''pre-rendered'')],
      errorDetails = NoDetails\<rparr>"

definition greeter_rendered :: response where
  "greeter_rendered =
     \<lparr>status = 200,
      body = Obj [(''href'', Str ''http://oc/greeter''),
                  (''type'', Str ''oc-component''),
                  (''version'', Str ''2.0.0''),
                  (''requestVersion'', Str ''''),
                  (''html'', Str ''<p>hello</p>''),
                  (''renderMode'', Str ''rendered'')],
      errorDetails = NoDetails\<rparr>"

text \<open>
  The contexts the sample sources leave behind: the data-provider context of
  \<open>greeter\<close> and the template context of a compiled view.
\<close>

definition greeter_data_context :: "bool \<Rightarrow> jsval" where
  "greeter_data_context dev =
     Obj [(''require'', RequireWrapper (Obj [(''underscore'', Obj [])])),
          (''module'', Obj [(''exports'', Obj [(''data'', Closure 1)])]),
          (''console'', if dev then HostConsole else Obj [(''log'', Noop)])]"

definition view_context :: "string \<Rightarrow> nat \<Rightarrow> jsval" where
  "view_context key n =
     Obj [(''jade'', JadeRuntime),
          (''oc'', Obj [(''components'', Obj [(key, Closure n)])])]"

section \<open>Exceptions raised by sandboxed code\<close>


section \<open>Properties\<close>

lemmas demo_defs = demo_def demo_lookup_def demo_vm_def demo_component_def demo_paths_def
  publish_request_def render_request_def package_upload_def registry_res_def

subsection \<open>Reading a run\<close>

lemma events_after [simp]: "events (after evs r) = evs @ events r"
  by (simp add: after_def)

lemma outcome_after [simp]: "outcome (after evs r) = outcome r"
  by (simp add: after_def)

lemma cache_after_after [simp]: "cache_after (after evs r) = cache_after r"
  by (simp add: after_def)

lemma respond_sel [simp]:
  "events (respond code b d ch) = []"
  "outcome (respond code b d ch) = Responded \<lparr>status = code, body = b, errorDetails = d\<rparr>"
  "cache_after (respond code b d ch) = ch"
  by (simp_all add: respond_def)

lemma uncaught_sel [simp]:
  "events (uncaught e ch) = []"
  "outcome (uncaught e ch) = Uncaught e"
  "cache_after (uncaught e ch) = ch"
  by (simp_all add: uncaught_def)

lemma no_response_sel [simp]:
  "events (no_response ch) = []"
  "outcome (no_response ch) = NoResponse"
  "cache_after (no_response ch) = ch"
  by (simp_all add: no_response_def)

lemma contexts_differ [simp]:
  "data_context rs \<noteq> template_context"
  "template_context \<noteq> data_context rs"
  by (simp_all add: data_context_def template_context_def)

subsection \<open>Publish\<close>

text \<open>
  C6. For every publish request, the validation stage answers 409 before any
  extraction or repository call is made: with \<open>malformed request\<close> when the component
  name or the version parameter is missing (falsy), else with \<open>not a valid version\<close>
  when the version validator rejects the version, else with \<open>package is not valid\<close>
  when the package validator rejects the upload. The checks are made in that order,
  and a run that made any call (the extraction is the first) has passed all three.
\<close>

theorem publish_validated_stage:
  "(\<not> truthy (params_componentName rq) \<or> \<not> truthy (params_componentVersion rq) \<longrightarrow>
      publish_route W rq rs ch = rejected 409 ''malformed request'' ch) \<and>
   (truthy (params_componentName rq) \<and> truthy (params_componentVersion rq) \<and>
    \<not> validateVersion W (params_componentVersion rq) \<longrightarrow>
      publish_route W rq rs ch = rejected 409 ''not a valid version'' ch) \<and>
   (truthy (params_componentName rq) \<and> truthy (params_componentVersion rq) \<and>
    validateVersion W (params_componentVersion rq) \<and>
    \<not> validatePackage W (req_files rq) \<longrightarrow>
      publish_route W rq rs ch = rejected 409 ''package is not valid'' ch) \<and>
   (events (publish_route W rq rs ch) \<noteq> [] \<longrightarrow>
      truthy (params_componentName rq) \<and> truthy (params_componentVersion rq) \<and>
      validateVersion W (params_componentVersion rq) \<and> validatePackage W (req_files rq))"
  by (auto simp add: publish_route_def rejected_def respond_def)

theorem publish_validated_stage_witness:
  "publish_route demo (publish_request Undefined (Str ''1.0.0'') (package_upload ''banner.tar.gz''))
     (registry_res False) Map.empty
     = rejected 409 ''malformed request'' Map.empty \<and>
   publish_route demo (publish_request (Str ''banner'') (Str ''latest'') (package_upload ''banner.tar.gz''))
     (registry_res False) Map.empty
     = rejected 409 ''not a valid version'' Map.empty \<and>
   publish_route demo (publish_request (Str ''banner'') (Str ''1.0.0'') [])
     (registry_res False) Map.empty
     = rejected 409 ''package is not valid'' Map.empty \<and>
   events (publish_route demo
             (publish_request (Str ''banner'') (Str ''1.0.0'') (package_upload ''banner.tar.gz''))
             (registry_res False) Map.empty)
     = [Extract ''/tmp/banner.tar.gz'' ''/tmp/banner.tar.gz/../banner'',
        PublishComponent ''/tmp/banner.tar.gz/../banner/_package'' (Str ''banner'')
          (Str ''1.0.0'')] \<and>
   validateVersion demo (Str ''1.0.0'') \<and>
   validatePackage demo (package_upload ''banner.tar.gz'')"
  using
    publish_validated_stage [of
      "publish_request Undefined (Str ''1.0.0'') (package_upload ''banner.tar.gz'')"
      demo "registry_res False" Map.empty]
    publish_validated_stage [of
      "publish_request (Str ''banner'') (Str ''latest'') (package_upload ''banner.tar.gz'')"
      demo "registry_res False" Map.empty]
    publish_validated_stage [of
      "publish_request (Str ''banner'') (Str ''1.0.0'') []"
      demo "registry_res False" Map.empty]
    publish_validated_stage [of
      "publish_request (Str ''banner'') (Str ''1.0.0'') (package_upload ''banner.tar.gz'')"
      demo "registry_res False" Map.empty]
  by (simp add: demo_defs publish_route_def packagePath_def packageUntarOutput_def
        packageOutput_def Let_def)

text \<open>
  C5. For every publish request that passed validation and reaches the extraction and
  the repository's publish operation: a failed extraction answers 500 with the
  decompression error under \<open>details\<close>; a repository error with code \<open>not_allowed\<close>
  answers 403, with code \<open>already_exists\<close> 403, with code \<open>name_not_valid\<close> 409,
  any other repository error 500; success answers 200 with \<open>{ok: true}\<close>.
\<close>

theorem publish_commit_stage:
  assumes "truthy (params_componentName rq)" and "truthy (params_componentVersion rq)"
    and "validateVersion W (params_componentVersion rq)"
    and "validatePackage W (req_files rq)"
    and "req_files rq = (field, packageFile) # rest"
    and "xerr = targz_extract W (packagePath W packageFile) (packageUntarOutput W packageFile)"
    and "perr = fst (publishComponent W (packageOutput W packageFile)
                       (params_componentName rq) (params_componentVersion rq))"
  shows
   "(truthy xerr \<longrightarrow>
       outcome (publish_route W rq rs ch) =
         Responded \<lparr>status = 500,
           body = Obj [(''error'', Str ''package file is not valid''), (''details'', xerr)],
           errorDetails = Format ''Package file is not valid: {0}'' [xerr]\<rparr>) \<and>
    (\<not> truthy xerr \<and> truthy perr \<and> js_member perr ''code'' = Str ''not_allowed'' \<longrightarrow>
       outcome (publish_route W rq rs ch) =
         Responded \<lparr>status = 403, body = Obj [(''error'', js_member perr ''msg'')],
           errorDetails = Format ''Publish not allowed: {0}'' [js_member perr ''msg'']\<rparr>) \<and>
    (\<not> truthy xerr \<and> truthy perr \<and> js_member perr ''code'' = Str ''already_exists'' \<longrightarrow>
       outcome (publish_route W rq rs ch) =
         Responded \<lparr>status = 403, body = Obj [(''error'', js_member perr ''msg'')],
           errorDetails = Format ''Component already exists: {0}'' [js_member perr ''msg'']\<rparr>) \<and>
    (\<not> truthy xerr \<and> truthy perr \<and> js_member perr ''code'' = Str ''name_not_valid'' \<longrightarrow>
       outcome (publish_route W rq rs ch) =
         Responded \<lparr>status = 409, body = Obj [(''error'', js_member perr ''msg'')],
           errorDetails = Format ''Component name not valid: {0}'' [js_member perr ''msg'']\<rparr>) \<and>
    (\<not> truthy xerr \<and> truthy perr \<and> js_member perr ''code'' \<noteq> Str ''not_allowed'' \<and>
     js_member perr ''code'' \<noteq> Str ''already_exists'' \<and>
     js_member perr ''code'' \<noteq> Str ''name_not_valid'' \<longrightarrow>
       outcome (publish_route W rq rs ch) =
         Responded \<lparr>status = 500, body = Obj [(''error'', js_member perr ''msg'')],
           errorDetails = Format ''Publish failed: {0}'' [js_member perr ''msg'']\<rparr>) \<and>
    (\<not> truthy xerr \<and> \<not> truthy perr \<longrightarrow>
       outcome (publish_route W rq rs ch) =
         Responded \<lparr>status = 200, body = Obj [(''ok'', Bool True)], errorDetails = NoDetails\<rparr>)"
  using assms by (simp add: publish_route_def Let_def split: prod.splits)

theorem publish_commit_stage_witness:
  "published ''banner'' ''broken.tar.gz'' =
     Responded \<lparr>status = 500,
       body = Obj [(''error'', Str ''package file is not valid''),
                   (''details'', Str ''unexpected end of file'')],
       errorDetails = Format ''Package file is not valid: {0}'' [Str ''unexpected end of file'']\<rparr> \<and>
   published ''locked'' ''banner.tar.gz'' =
     Responded \<lparr>status = 403, body = Obj [(''error'', Str ''no rights'')],
       errorDetails = Format ''Publish not allowed: {0}'' [Str ''no rights'']\<rparr> \<and>
   published ''taken'' ''banner.tar.gz'' =
     Responded \<lparr>status = 403, body = Obj [(''error'', Str ''published before'')],
       errorDetails = Format ''Component already exists: {0}'' [Str ''published before'']\<rparr> \<and>
   published ''bad name'' ''banner.tar.gz'' =
     Responded \<lparr>status = 409, body = Obj [(''error'', Str ''bad characters'')],
       errorDetails = Format ''Component name not valid: {0}'' [Str ''bad characters'']\<rparr> \<and>
   published ''unlucky'' ''banner.tar.gz'' =
     Responded \<lparr>status = 500, body = Obj [(''error'', Str ''store unavailable'')],
       errorDetails = Format ''Publish failed: {0}'' [Str ''store unavailable'']\<rparr> \<and>
   published ''banner'' ''banner.tar.gz'' =
     Responded \<lparr>status = 200, body = Obj [(''ok'', Bool True)], errorDetails = NoDetails\<rparr>"
  using publish_commit_stage [where W = demo and rs = "registry_res False" and ch = Map.empty
      and rq = "publish_request (Str ''banner'') (Str ''1.0.0'') (package_upload ''broken.tar.gz'')",
      OF _ _ _ _ _ refl refl]
    publish_commit_stage [where W = demo and rs = "registry_res False" and ch = Map.empty
      and rq = "publish_request (Str ''locked'') (Str ''1.0.0'') (package_upload ''banner.tar.gz'')",
      OF _ _ _ _ _ refl refl]
    publish_commit_stage [where W = demo and rs = "registry_res False" and ch = Map.empty
      and rq = "publish_request (Str ''banner'') (Str ''1.0.0'') (package_upload ''banner.tar.gz'')",
      OF _ _ _ _ _ refl refl]
  by (simp add: published_def demo_defs publish_route_def packagePath_def
        packageUntarOutput_def packageOutput_def Let_def)

subsection \<open>The calls of each stage\<close>

lemma returnResult_events [simp]:
  "events (returnResult W response data options tpl ch) = [RenderTemplate tpl data options]"
  by (simp add: returnResult_def split: callback_outcome.splits)

lemma returnResult_cache [simp]:
  "cache_after (returnResult W response data options tpl ch) = ch"
  by (simp add: returnResult_def split: callback_outcome.splits)

lemma returnResult_responded:
  "outcome (returnResult W response data options tpl ch) = Responded r \<Longrightarrow>
     \<exists>err html. renderTemplate W tpl data options = CallsBack err html \<and>
       r = \<lparr>status = 200,
            body = js_extend response (Obj [(''html'', html), (''renderMode'', Str ''rendered'')]),
            errorDetails = NoDetails\<rparr>"
  by (auto simp add: returnResult_def split: callback_outcome.splits)

lemma returnComponent_prerendered:
  "headers_accept rq = prerendered \<Longrightarrow>
     events (returnComponent W rq rs c rv ps err data ch) = [] \<and>
     cache_after (returnComponent W rq rs c rv ps err data ch) = ch"
  by (simp add: returnComponent_def)

lemma returnComponent_events:
  "ev \<in> set (events (returnComponent W rq rs c rv ps err data ch)) \<Longrightarrow>
     ev = CacheGet ''file-contents'' (format_key (name c) (version c) ''template.js'') \<or>
     ev = GetCompiledView (name c) (version c) \<or>
     ev = RunInNewContext (snd (getCompiledView W (name c) (version c))) template_context \<or>
     (\<exists>tpl. ev = CacheSet ''file-contents'' (format_key (name c) (version c) ''template.js'') tpl) \<or>
     (\<exists>tpl. ev = RenderTemplate tpl data (render_options W rs c rv ps))"
  by (auto simp add: returnComponent_def Let_def split: if_splits prod.splits sum.splits)

lemma invoke_events:
  "ev \<in> set (events (invoke W rq rs c rv ps f reqObj ch)) \<Longrightarrow>
     ev = Call f reqObj \<or>
     (\<exists>err data. call W f reqObj = CallsBack err data \<and>
        ev \<in> set (events (returnComponent W rq rs c rv ps err data ch)))"
  by (auto simp add: invoke_def split: if_splits callback_outcome.splits)

lemma data_stage_events:
  "ev \<in> set (events (data_stage W rq rs c rv ps ch)) \<Longrightarrow>
     (\<not> truthy (dataProvider (files (oc c))) \<and>
      ev \<in> set (events (returnComponent W rq rs c rv ps Null (Obj []) ch))) \<or>
     (truthy (dataProvider (files (oc c))) \<and>
      (ev = CacheGet ''file-contents'' (format_key (name c) (version c) ''server.js'') \<or>
       ev = GetDataProvider (name c) (version c) \<or>
       ev = RunInNewContext (snd (getDataProvider W (name c) (version c))) (data_context rs) \<or>
       (\<exists>pd. ev = CacheSet ''file-contents'' (format_key (name c) (version c) ''server.js'') pd) \<or>
       (\<exists>f ch'. ev \<in> set (events (invoke W rq rs c rv ps f (reqObj_of W rq rs c ps) ch')))))"
  by (auto simp add: data_stage_def Let_def split: if_splits prod.splits sum.splits)

lemma component_route_events:
  "ev \<in> set (events (component_route W rq rs ch)) \<Longrightarrow>
     ev = GetComponent (params_componentName rq) (requested_version rq) \<or>
     (\<exists>c. snd (getComponent W (params_componentName rq) (requested_version rq)) = Some c \<and>
        ev \<in> set (events (data_stage W rq rs c (requested_version rq)
                 (sanitiseComponentParameters W (query rq) (parameters (oc c))) ch)))"
  by (auto simp add: component_route_def Let_def split: if_splits prod.splits option.splits)

subsection \<open>Content negotiation\<close>

text \<open>
  C8. For every render request whose accept header is the prerendered media type, the
  template sandbox is never invoked, whatever the cache holds: the run contains no
  fetch of the compiled view, no run of template text in the template context and no
  call of the render function.
\<close>

theorem prerendered_skips_template:
  assumes "headers_accept rq = prerendered"
  shows "\<forall>ev \<in> set (events (component_route W rq rs ch)). \<not> template_sandbox_event ev"
proof
  fix ev assume "ev \<in> set (events (component_route W rq rs ch))"
  then show "\<not> template_sandbox_event ev"
    using assms
    by (auto dest!: component_route_events data_stage_events invoke_events
          simp add: returnComponent_prerendered)
qed

lemmas route_defs = component_route_def data_stage_def invoke_def returnComponent_def
  returnResult_def requested_version_def js_or_def reqObj_of_def render_options_def
  response_base_def componentHref_def format_key_def cache_get_def cache_set_def
  data_context_def template_context_def prerendered_def

lemmas eval_defs = demo_run_def rendered_request_def demo_defs route_defs Let_def

theorem prerendered_skips_template_witness:
  "headers_accept (render_request (Str ''greeter'') Undefined prerendered) = prerendered \<and>
   events (component_route demo (render_request (Str ''greeter'') Undefined prerendered)
             (registry_res False) Map.empty) =
     [GetComponent (Str ''greeter'') (Str ''''),
      CacheGet ''file-contents'' ''greeter/2.0.0/server.js'',
      GetDataProvider ''greeter'' ''2.0.0'',
      RunInNewContext (Str ''module.exports.data = greet'') (data_context (registry_res False)),
      CacheSet ''file-contents'' ''greeter/2.0.0/server.js'' (Closure 1),
      Call (Closure 1) (reqObj_of demo (render_request (Str ''greeter'') Undefined prerendered)
         (registry_res False) (demo_component ''greeter'' ''2.0.0'' (Str ''server.js'') ''def456'') (Obj []))] \<and>
   events (component_route demo (render_request (Str ''greeter'') Undefined prerendered)
             (registry_res False) warm_cache) =
     [GetComponent (Str ''greeter'') (Str ''''),
      CacheGet ''file-contents'' ''greeter/2.0.0/server.js'',
      Call (Closure 1) (reqObj_of demo (render_request (Str ''greeter'') Undefined prerendered)
         (registry_res False) (demo_component ''greeter'' ''2.0.0'' (Str ''server.js'') ''def456'') (Obj []))] \<and>
   list_all (\<lambda>ev. \<not> template_sandbox_event ev)
     (events (component_route demo (render_request (Str ''greeter'') Undefined prerendered)
             (registry_res False) warm_cache))"
  using prerendered_skips_template [of "render_request (Str ''greeter'') Undefined prerendered"
      demo "registry_res False" warm_cache]
    prerendered_skips_template [of "render_request (Str ''greeter'') Undefined prerendered"
      demo "registry_res False" Map.empty]
  by (simp add: demo_defs route_defs warm_cache_def Let_def)

subsection \<open>What a response of a stage tells\<close>

lemma returnComponent_responded:
  "outcome (returnComponent W rq rs c rv ps err data ch) = Responded r \<Longrightarrow> status r = 200 \<Longrightarrow>
     \<not> truthy err \<and>
     (if headers_accept rq = prerendered then
        body r =
          js_extend (response_base W rs c rv ps)
             (Obj [(''data'', data),
                   (''template'',
                      Obj [(''src'', Str (getStaticFilePath W (name c) (version c)
                                            ''template.js'')),
                           (''type'', Str (template_type (template (files (oc c))))),
                           (''key'', Str (hashKey (template (files (oc c)))))]),
                   (''renderMode'', Str ''pre-rendered'')])
      else
        \<exists>html. body r =
          js_extend (response_base W rs c rv ps)
            (Obj [(''html'', html), (''renderMode'', Str ''rendered'')]))"
  by (auto simp add: returnComponent_def Let_def
        split: if_splits prod.splits sum.splits dest!: returnResult_responded)

lemma invoke_responded:
  "outcome (invoke W rq rs c rv ps f reqObj ch) = Responded r \<Longrightarrow>
     is_function f \<and> Call f reqObj \<in> set (events (invoke W rq rs c rv ps f reqObj ch)) \<and>
     (\<exists>err data. call W f reqObj = CallsBack err data \<and>
        outcome (returnComponent W rq rs c rv ps err data ch) = Responded r)"
  by (auto simp add: invoke_def split: if_splits callback_outcome.splits)

lemma data_stage_responded:
  "outcome (data_stage W rq rs c rv ps ch) = Responded r \<Longrightarrow> status r = 200 \<Longrightarrow>
     (\<not> truthy (dataProvider (files (oc c))) \<and>
      outcome (returnComponent W rq rs c rv ps Null (Obj []) ch) = Responded r) \<or>
     (truthy (dataProvider (files (oc c))) \<and>
      (\<exists>f err data ch'.
         Call f (reqObj_of W rq rs c ps) \<in> set (events (data_stage W rq rs c rv ps ch)) \<and>
         call W f (reqObj_of W rq rs c ps) = CallsBack err data \<and>
         outcome (returnComponent W rq rs c rv ps err data ch') = Responded r))"
  by (auto simp add: data_stage_def Let_def
        split: if_splits prod.splits sum.splits dest!: invoke_responded) blast+

lemma component_route_responded:
  "outcome (component_route W rq rs ch) = Responded r \<Longrightarrow> status r = 200 \<Longrightarrow>
     \<exists>c e. getComponent W (params_componentName rq) (requested_version rq) = (e, Some c) \<and>
       \<not> truthy e \<and>
       outcome (data_stage W rq rs c (requested_version rq)
         (sanitiseComponentParameters W (query rq) (parameters (oc c))) ch) = Responded r \<and>
       set (events (data_stage W rq rs c (requested_version rq)
         (sanitiseComponentParameters W (query rq) (parameters (oc c))) ch))
         \<subseteq> set (events (component_route W rq rs ch))"
  by (auto simp add: component_route_def Let_def split: if_splits prod.splits option.splits)

text \<open>
  C1 as stated fails: a prerendered request for a component with a data-provider, on
  an empty cache, fetches the data-provider source, runs it in the sandbox, caches and
  calls the function, and answers with the data it produced.
\<close>

theorem prerendered_runs_data_provider:
  "headers_accept (render_request (Str ''greeter'') Undefined prerendered) = prerendered \<and>
   events (demo_run (render_request (Str ''greeter'') Undefined prerendered)) =
     [GetComponent (Str ''greeter'') (Str ''''),
      CacheGet ''file-contents'' ''greeter/2.0.0/server.js'',
      GetDataProvider ''greeter'' ''2.0.0'',
      RunInNewContext (Str ''module.exports.data = greet'')
        (Obj [(''require'', RequireWrapper (Obj [(''underscore'', Obj [])])),
              (''module'', Obj [(''exports'', Obj [])]),
              (''console'', Obj [(''log'', Noop)])]),
      CacheSet ''file-contents'' ''greeter/2.0.0/server.js'' (Closure 1),
      Call (Closure 1)
        (Obj [(''acceptLanguage'', Obj []), (''baseUrl'', Str ''http://oc/''),
              (''env'', Obj []), (''params'', Obj []),
              (''staticPath'', Str ''//cdn/greeter/2.0.0/'')])] \<and>
   outcome (demo_run (render_request (Str ''greeter'') Undefined prerendered)) =
     Responded \<lparr>status = 200,
       body = Obj [(''href'', Str ''http://oc/greeter''),
                   (''type'', Str ''oc-component''),
                   (''version'', Str ''2.0.0''),
                   (''requestVersion'', Str ''''),
                   (''data'', Obj [(''greeting'', Str ''hello'')]),
                   (''template'',
                      Obj [(''src'', Str ''https://cdn/greeter/2.0.0/template.js''),
                           (''type'', Str ''jade''), (''key'', Str ''def456'')]),
                   (''renderMode'', Str ''pre-rendered'')],
       errorDetails = NoDetails\<rparr>"
  by (simp add: eval_defs)

subsection \<open>The fields of a successful response\<close>

lemma response_fields:
  "(outcome (component_route W rq rs ch) = Responded r \<and> status r = 200 \<longrightarrow>
      (\<exists>c. snd (getComponent W (params_componentName rq) (requested_version rq)) = Some c \<and>
         js_member (body r) ''href'' =
           urlBuilder_component W
             (Obj [(''name'', Str (name c)),
                   (''version'', requested_version rq),
                   (''parameters'',
                      sanitiseComponentParameters W (query rq) (parameters (oc c)))])
             (baseUrl (res_conf rs)) \<and>
         js_member (body r) ''version'' = Str (version c) \<and>
         js_member (body r) ''requestVersion'' = requested_version rq)) \<and>
   requested_version rq =
     (if truthy (params_componentVersion rq) then params_componentVersion rq else Str '''')"
proof (intro conjI impI)
  assume r: "outcome (component_route W rq rs ch) = Responded r \<and> status r = 200"
  then obtain c e where c: "getComponent W (params_componentName rq) (requested_version rq) = (e, Some c)"
    and d: "outcome (data_stage W rq rs c (requested_version rq)
         (sanitiseComponentParameters W (query rq) (parameters (oc c))) ch) = Responded r"
    by (auto dest!: component_route_responded)
  let ?ps = "sanitiseComponentParameters W (query rq) (parameters (oc c))"
  from d r obtain err data ch' where
    "outcome (returnComponent W rq rs c (requested_version rq) ?ps err data ch') = Responded r"
    by (auto dest!: data_stage_responded)
  with r have "js_member (body r) ''href'' = componentHref W rs c (requested_version rq) ?ps \<and>
         js_member (body r) ''version'' = Str (version c) \<and>
         js_member (body r) ''requestVersion'' = requested_version rq"
    by (auto dest!: returnComponent_responded simp add: response_base_def split: if_splits)
  with c show "\<exists>c. snd (getComponent W (params_componentName rq) (requested_version rq)) = Some c \<and>
         js_member (body r) ''href'' =
           urlBuilder_component W
             (Obj [(''name'', Str (name c)),
                   (''version'', requested_version rq),
                   (''parameters'',
                      sanitiseComponentParameters W (query rq) (parameters (oc c)))])
             (baseUrl (res_conf rs)) \<and>
         js_member (body r) ''version'' = Str (version c) \<and>
         js_member (body r) ''requestVersion'' = requested_version rq"
    by (auto simp add: componentHref_def)
next
  show "requested_version rq =
     (if truthy (params_componentVersion rq) then params_componentVersion rq else Str '''')"
    by (simp add: requested_version_def js_or_def)
qed

lemma banner_latest:
  "outcome (demo_run (render_request (Str ''banner'') Undefined Undefined))
     = Responded (banner_rendered ''http://oc/banner'' '''')"
  by (simp add: eval_defs banner_rendered_def)

lemma banner_exact:
  "outcome (demo_run (render_request (Str ''banner'') (Str ''1.0.0'') Undefined))
     = Responded (banner_rendered ''http://oc/banner/1.0.0'' ''1.0.0'')"
  by (simp add: eval_defs banner_rendered_def)

lemma hrefs_can_differ:
  "\<exists>W rq1 rq2 rs ch r1 r2.
      outcome (component_route W rq1 rs ch) = Responded r1 \<and> status r1 = 200 \<and>
      outcome (component_route W rq2 rs ch) = Responded r2 \<and> status r2 = 200 \<and>
      js_member (body r1) ''version'' = js_member (body r2) ''version'' \<and>
      js_member (body r1) ''href'' \<noteq> js_member (body r2) ''href''"
proof -
  have "outcome (component_route demo (render_request (Str ''banner'') Undefined Undefined)
           (registry_res False) Map.empty) = Responded (banner_rendered ''http://oc/banner'' '''') \<and>
        status (banner_rendered ''http://oc/banner'' '''') = 200 \<and>
        outcome (component_route demo (render_request (Str ''banner'') (Str ''1.0.0'') Undefined)
           (registry_res False) Map.empty)
          = Responded (banner_rendered ''http://oc/banner/1.0.0'' ''1.0.0'') \<and>
        status (banner_rendered ''http://oc/banner/1.0.0'' ''1.0.0'') = 200 \<and>
        js_member (body (banner_rendered ''http://oc/banner'' '''')) ''version''
          = js_member (body (banner_rendered ''http://oc/banner/1.0.0'' ''1.0.0'')) ''version'' \<and>
        js_member (body (banner_rendered ''http://oc/banner'' '''')) ''href''
          \<noteq> js_member (body (banner_rendered ''http://oc/banner/1.0.0'' ''1.0.0'')) ''href''"
    using banner_latest banner_exact by (simp add: demo_run_def banner_rendered_def)
  then show ?thesis by blast
qed

lemma banner_found_latest:
  "snd (getComponent demo
          (params_componentName (render_request (Str ''banner'') Undefined Undefined))
          (requested_version (render_request (Str ''banner'') Undefined Undefined)))
     = Some (demo_component ''banner'' ''1.0.0'' Undefined ''abc123'') \<and>
   version (demo_component ''banner'' ''1.0.0'' Undefined ''abc123'') = ''1.0.0''"
  by (simp add: eval_defs)

text \<open>
  C10. In every successful render response the href is what the url builder makes of
  the component's name, the requested version (the empty string when the request gave
  none) and the sanitised parameters, not of the resolved version; the version field
  is the resolved version and requestVersion the requested one. So two requests that
  resolve to the same version can be answered with different hrefs.
\<close>

theorem href_from_requested_version:
  "(outcome (component_route W rq rs ch) = Responded r \<and> status r = 200 \<longrightarrow>
      (\<exists>c. snd (getComponent W (params_componentName rq) (requested_version rq)) = Some c \<and>
         js_member (body r) ''href'' =
           urlBuilder_component W
             (Obj [(''name'', Str (name c)),
                   (''version'', requested_version rq),
                   (''parameters'',
                      sanitiseComponentParameters W (query rq) (parameters (oc c)))])
             (baseUrl (res_conf rs)) \<and>
         js_member (body r) ''version'' = Str (version c) \<and>
         js_member (body r) ''requestVersion'' = requested_version rq)) \<and>
   requested_version rq =
     (if truthy (params_componentVersion rq) then params_componentVersion rq else Str '''') \<and>
   (\<exists>W' rq1 rq2 rs' ch' r1 r2.
      outcome (component_route W' rq1 rs' ch') = Responded r1 \<and> status r1 = 200 \<and>
      outcome (component_route W' rq2 rs' ch') = Responded r2 \<and> status r2 = 200 \<and>
      js_member (body r1) ''version'' = js_member (body r2) ''version'' \<and>
      js_member (body r1) ''href'' \<noteq> js_member (body r2) ''href'')"
  using response_fields [of W rq rs ch r] hrefs_can_differ by blast

theorem href_from_requested_version_witness:
  "outcome (demo_run (render_request (Str ''banner'') (Str ''1.0.0'') Undefined))
     = Responded (banner_rendered ''http://oc/banner/1.0.0'' ''1.0.0'') \<and>
   outcome (demo_run (render_request (Str ''banner'') Undefined Undefined))
     = Responded (banner_rendered ''http://oc/banner'' '''') \<and>
   status (banner_rendered ''http://oc/banner'' '''') = 200 \<and>
   requested_version (render_request (Str ''banner'') Undefined Undefined) = Str '''' \<and>
   js_member (body (banner_rendered ''http://oc/banner'' '''')) ''requestVersion'' = Str '''' \<and>
   js_member (body (banner_rendered ''http://oc/banner'' '''')) ''version'' = Str ''1.0.0''"
proof -
  have s: "status (banner_rendered ''http://oc/banner'' '''') = 200"
    by (simp add: banner_rendered_def)
  have v: "requested_version (render_request (Str ''banner'') Undefined Undefined) = Str ''''"
    by (simp add: render_request_def requested_version_def js_or_def)
  from href_from_requested_version
    [of demo "render_request (Str ''banner'') Undefined Undefined" "registry_res False"
       Map.empty "banner_rendered ''http://oc/banner'' ''''", THEN conjunct1, rule_format]
    banner_latest s
  have "\<exists>c. snd (getComponent demo
                 (params_componentName (render_request (Str ''banner'') Undefined Undefined))
                 (requested_version (render_request (Str ''banner'') Undefined Undefined)))
             = Some c \<and>
          js_member (body (banner_rendered ''http://oc/banner'' '''')) ''version''
             = Str (version c) \<and>
          js_member (body (banner_rendered ''http://oc/banner'' '''')) ''requestVersion''
             = requested_version (render_request (Str ''banner'') Undefined Undefined)"
    by (auto simp add: demo_run_def)
  then have "js_member (body (banner_rendered ''http://oc/banner'' '''')) ''requestVersion''
               = Str '''' \<and>
             js_member (body (banner_rendered ''http://oc/banner'' '''')) ''version''
               = Str ''1.0.0''"
    using v banner_found_latest by auto
  with banner_latest banner_exact s v show ?thesis by simp
qed

subsection \<open>Failures\<close>






lemma returnComponent_no_call:
  "Call f arg \<notin> set (events (returnComponent W rq rs c rv ps err data ch))"
  by (auto dest: returnComponent_events)








text \<open>
  C3. Failures of the compiled view do not answer 502. When the fetch of the compiled
  view reports an error, the error is ignored and the run ends with an uncaught
  TypeError; when the render call reports an error, the error is ignored and the
  response is 200 with an undefined \<open>html\<close>.
\<close>

theorem view_failures_not_502:
  "fst (getCompiledView demo ''flaky'' ''1.0.0'') = Str ''file not found'' \<and>
   outcome (demo_run (rendered_request ''flaky'')) = Uncaught TypeError \<and>
   renderTemplate demo (Closure 4) (Obj [])
     (Obj [(''href'', Str ''http://oc/badview''), (''key'', Str ''ccc333''),
           (''version'', Str ''1.0.0''), (''templateType'', Str ''jade'')])
     = CallsBack (Str ''render failed'') Undefined \<and>
   outcome (demo_run (rendered_request ''badview'')) =
     Responded \<lparr>status = 200,
       body = Obj [(''href'', Str ''http://oc/badview''),
                   (''type'', Str ''oc-component''),
                   (''version'', Str ''1.0.0''),
                   (''requestVersion'', Str ''''),
                   (''html'', Undefined),
                   (''renderMode'', Str ''rendered'')],
       errorDetails = NoDetails\<rparr>"
  by (simp add: eval_defs)

subsection \<open>The sandbox contexts\<close>

lemma keys_differ [simp]:
  "format_key n v ''server.js'' \<noteq> format_key n v ''template.js''"
  "format_key n v ''template.js'' \<noteq> format_key n v ''server.js''"
  by (simp_all add: format_key_def)

lemma returnComponent_cache_set:
  "CacheSet ty key v \<in> set (events (returnComponent W rq rs c rv ps err data ch)) \<Longrightarrow>
     ty = ''file-contents'' \<and> key = format_key (name c) (version c) ''template.js'' \<and>
     (\<exists>context. runInNewContext W (snd (getCompiledView W (name c) (version c)))
                   template_context = Inr context \<and>
        get_path context [''oc'', ''components'', hashKey (template (files (oc c)))] = Inr v)"
  by (auto simp add: returnComponent_def Let_def simp del: get_path.simps
        split: if_splits prod.splits sum.splits)

lemma invoke_cache_set:
  "CacheSet ty key v \<in> set (events (invoke W rq rs c rv ps f reqObj ch)) \<Longrightarrow>
     ty = ''file-contents'' \<and> key = format_key (name c) (version c) ''template.js'' \<and>
     (\<exists>context. runInNewContext W (snd (getCompiledView W (name c) (version c)))
                   template_context = Inr context \<and>
        get_path context [''oc'', ''components'', hashKey (template (files (oc c)))] = Inr v)"
  by (auto simp add: invoke_def split: if_splits callback_outcome.splits
        dest!: returnComponent_cache_set)

lemma data_stage_cache_set:
  "CacheSet ty key v \<in> set (events (data_stage W rq rs c rv ps ch)) \<Longrightarrow>
     ty = ''file-contents'' \<and>
     ((key = format_key (name c) (version c) ''server.js'' \<and>
       (\<exists>context. runInNewContext W (snd (getDataProvider W (name c) (version c)))
                     (data_context rs) = Inr context \<and>
          get_path context [''module'', ''exports'', ''data''] = Inr v)) \<or>
      (key = format_key (name c) (version c) ''template.js'' \<and>
       (\<exists>context. runInNewContext W (snd (getCompiledView W (name c) (version c)))
                     template_context = Inr context \<and>
          get_path context [''oc'', ''components'', hashKey (template (files (oc c)))]
            = Inr v)))"
  by (auto simp add: data_stage_def Let_def simp del: get_path.simps
        split: if_splits prod.splits sum.splits
        dest!: returnComponent_cache_set invoke_cache_set)

text \<open>
  C9. Every run of component code in the sandbox gets an explicitly constructed
  context and nothing else. The data-provider source runs in a context with exactly
  three bindings: \<open>require\<close>, the module loader \<^verbatim>\<open>new RequireWrapper\<close> builds from the
  injected dependencies; \<open>module\<close>, whose \<open>exports\<close> is empty; and \<open>console\<close> (Node's
  console in local mode, an object with a no-op \<open>log\<close> otherwise). The compiled view
  runs in a context with exactly one binding, \<open>jade\<close>, the templating runtime. What
  is taken out of a data-provider context and cached is \<^verbatim>\<open>module.exports.data\<close>; what
  is taken out of a template context is \<^verbatim>\<open>oc.components[key]\<close> for the template's
  hash key.
\<close>

theorem sandbox_contexts:
  "(\<forall>code context.
      RunInNewContext code context \<in> set (events (component_route W rq rs ch)) \<longrightarrow>
        context =
          Obj [(''require'', RequireWrapper (injectedDependencies rs)),
               (''module'', Obj [(''exports'', Obj [])]),
               (''console'',
                  if local (res_conf rs) then HostConsole else Obj [(''log'', Noop)])] \<or>
        context = Obj [(''jade'', JadeRuntime)]) \<and>
   (\<forall>ty key v.
      CacheSet ty key v \<in> set (events (component_route W rq rs ch)) \<longrightarrow>
        (\<exists>c. snd (getComponent W (params_componentName rq) (requested_version rq)) = Some c \<and>
           ((key = format_key (name c) (version c) ''server.js'' \<and>
             (\<exists>context.
                runInNewContext W (snd (getDataProvider W (name c) (version c)))
                  (Obj [(''require'', RequireWrapper (injectedDependencies rs)),
                        (''module'', Obj [(''exports'', Obj [])]),
                        (''console'',
                           if local (res_conf rs) then HostConsole
                           else Obj [(''log'', Noop)])]) = Inr context \<and>
                get_path context [''module'', ''exports'', ''data''] = Inr v)) \<or>
            (key = format_key (name c) (version c) ''template.js'' \<and>
             (\<exists>context.
                runInNewContext W (snd (getCompiledView W (name c) (version c)))
                  (Obj [(''jade'', JadeRuntime)]) = Inr context \<and>
                get_path context [''oc'', ''components'', hashKey (template (files (oc c)))]
                  = Inr v)))))"
proof (intro conjI allI impI)
  fix code ctx
  assume "RunInNewContext code ctx \<in> set (events (component_route W rq rs ch))"
  then have "ctx = data_context rs \<or> ctx = template_context"
    by (auto dest!: component_route_events data_stage_events invoke_events
          returnComponent_events)
  then show "ctx =
          Obj [(''require'', RequireWrapper (injectedDependencies rs)),
               (''module'', Obj [(''exports'', Obj [])]),
               (''console'',
                  if local (res_conf rs) then HostConsole else Obj [(''log'', Noop)])] \<or>
        ctx = Obj [(''jade'', JadeRuntime)]"
    by (simp add: data_context_def template_context_def)
next
  fix ty key v
  assume "CacheSet ty key v \<in> set (events (component_route W rq rs ch))"
  then obtain c where
    c: "snd (getComponent W (params_componentName rq) (requested_version rq)) = Some c"
    and "CacheSet ty key v \<in> set (events (data_stage W rq rs c (requested_version rq)
                 (sanitiseComponentParameters W (query rq) (parameters (oc c))) ch))"
    by (auto dest!: component_route_events)
  from data_stage_cache_set [OF this(2)] c
  show "\<exists>c. snd (getComponent W (params_componentName rq) (requested_version rq)) = Some c \<and>
           ((key = format_key (name c) (version c) ''server.js'' \<and>
             (\<exists>context.
                runInNewContext W (snd (getDataProvider W (name c) (version c)))
                  (Obj [(''require'', RequireWrapper (injectedDependencies rs)),
                        (''module'', Obj [(''exports'', Obj [])]),
                        (''console'',
                           if local (res_conf rs) then HostConsole
                           else Obj [(''log'', Noop)])]) = Inr context \<and>
                get_path context [''module'', ''exports'', ''data''] = Inr v)) \<or>
            (key = format_key (name c) (version c) ''template.js'' \<and>
             (\<exists>context.
                runInNewContext W (snd (getCompiledView W (name c) (version c)))
                  (Obj [(''jade'', JadeRuntime)]) = Inr context \<and>
                get_path context [''oc'', ''components'', hashKey (template (files (oc c)))]
                  = Inr v)))"
    unfolding data_context_def template_context_def by blast
qed

lemma greeter_route_events:
  "events (component_route demo (rendered_request ''greeter'') (registry_res False) Map.empty)
     = GetComponent (Str ''greeter'') (Str '''') # greeter_compiles False"
  by (simp add: greeter_compiles_def greeter_reqObj_def greeter_options_def greeter_data_def
        eval_defs)

theorem sandbox_contexts_witness:
  "RunInNewContext (Str ''module.exports.data = greet'')
     (Obj [(''require'', RequireWrapper (Obj [(''underscore'', Obj [])])),
           (''module'', Obj [(''exports'', Obj [])]),
           (''console'', Obj [(''log'', Noop)])])
     \<in> set (events (demo_run (rendered_request ''greeter''))) \<and>
   RunInNewContext (Str ''view greeter'') (Obj [(''jade'', JadeRuntime)])
     \<in> set (events (demo_run (rendered_request ''greeter''))) \<and>
   CacheSet ''file-contents'' ''greeter/2.0.0/server.js'' (Closure 1)
     \<in> set (events (demo_run (rendered_request ''greeter''))) \<and>
   CacheSet ''file-contents'' ''greeter/2.0.0/template.js'' (Closure 3)
     \<in> set (events (demo_run (rendered_request ''greeter''))) \<and>
   injectedDependencies (registry_res False) = Obj [(''underscore'', Obj [])] \<and>
   \<not> local (res_conf (registry_res False))"
proof -
  have ev: "RunInNewContext (Str ''module.exports.data = greet'')
       (Obj [(''require'', RequireWrapper (Obj [(''underscore'', Obj [])])),
             (''module'', Obj [(''exports'', Obj [])]),
             (''console'', Obj [(''log'', Noop)])])
       \<in> set (events (demo_run (rendered_request ''greeter'')))"
    "RunInNewContext (Str ''view greeter'') (Obj [(''jade'', JadeRuntime)])
       \<in> set (events (demo_run (rendered_request ''greeter'')))"
    "CacheSet ''file-contents'' ''greeter/2.0.0/server.js'' (Closure 1)
       \<in> set (events (demo_run (rendered_request ''greeter'')))"
    "CacheSet ''file-contents'' ''greeter/2.0.0/template.js'' (Closure 3)
       \<in> set (events (demo_run (rendered_request ''greeter'')))"
    unfolding demo_run_def greeter_route_events greeter_compiles_def
    by (simp_all add: data_context_def template_context_def registry_res_def)
  have rs: "injectedDependencies (registry_res False) = Obj [(''underscore'', Obj [])]"
    "\<not> local (res_conf (registry_res False))"
    by (simp_all add: registry_res_def)
  from sandbox_contexts [of demo "rendered_request ''greeter''" "registry_res False" Map.empty,
      THEN conjunct1, rule_format,
      of "Str ''view greeter''" "Obj [(''jade'', JadeRuntime)]"] ev rs
  show ?thesis by (simp add: demo_run_def)
qed

subsection \<open>Runs of a resolved request\<close>

lemma is_function_truthy: "is_function f \<Longrightarrow> truthy f"
  by (cases f) simp_all

lemma component_route_resolved:
  "resolved W rq c \<Longrightarrow>
     component_route W rq rs ch =
       after [GetComponent (params_componentName rq) (requested_version rq)]
         (data_stage W rq rs c (requested_version rq) (sanitised W rq c) ch)"
  by (auto simp add: resolved_def sanitised_def component_route_def Let_def
        split: prod.splits)

lemma run_eqI:
  "outcome r = o' \<Longrightarrow> events r = es \<Longrightarrow> cache_after r = ch \<Longrightarrow>
     (r :: run) = \<lparr>outcome = o', events = es, cache_after = ch\<rparr>"
  by (cases r) simp

lemma returnComponent_prerendered_run:
  "headers_accept rq = prerendered \<Longrightarrow> \<not> truthy err \<Longrightarrow>
     returnComponent W rq rs c (requested_version rq) (sanitised W rq c) err data ch =
       \<lparr>outcome = ok_with (prerendered_body W rq rs c data), events = [], cache_after = ch\<rparr>"
  by (simp add: returnComponent_def respond_def ok_with_def prerendered_body_def
        response_base_def componentHref_def)

lemma returnResult_ok:
  "renderTemplate W tpl data (render_options W rs c (requested_version rq) (sanitised W rq c))
      = CallsBack err html \<Longrightarrow>
   outcome (returnResult W (response_base W rs c (requested_version rq) (sanitised W rq c)) data
              (render_options W rs c (requested_version rq) (sanitised W rq c)) tpl ch)
     = ok_with (rendered_body W rq rs c html)"
  by (simp add: returnResult_def ok_with_def rendered_body_def response_base_def
        componentHref_def)

lemma returnComponent_hit_run:
  assumes "\<not> truthy err" and "headers_accept rq \<noteq> prerendered" and "\<not> local (res_conf rs)"
    and "truthy (cache_get ch ''file-contents'' (format_key (name c) (version c) ''template.js''))"
  shows "events (returnComponent W rq rs c (requested_version rq) (sanitised W rq c) err data ch) =
           [CacheGet ''file-contents'' (format_key (name c) (version c) ''template.js''),
            RenderTemplate
              (cache_get ch ''file-contents'' (format_key (name c) (version c) ''template.js''))
              data (render_options W rs c (requested_version rq) (sanitised W rq c))]"
    and "cache_after (returnComponent W rq rs c (requested_version rq) (sanitised W rq c)
                        err data ch) = ch"
    and "renderTemplate W
           (cache_get ch ''file-contents'' (format_key (name c) (version c) ''template.js''))
           data (render_options W rs c (requested_version rq) (sanitised W rq c))
           = CallsBack e html \<Longrightarrow>
         outcome (returnComponent W rq rs c (requested_version rq) (sanitised W rq c)
                    err data ch) = ok_with (rendered_body W rq rs c html)"
  using assms by (simp_all add: returnComponent_def Let_def returnResult_ok)

lemma returnComponent_compile_run:
  assumes "\<not> truthy err" and "headers_accept rq \<noteq> prerendered"
    and "local (res_conf rs) \<or>
         \<not> truthy (cache_get ch ''file-contents''
                     (format_key (name c) (version c) ''template.js''))"
  shows "take 3 (events (returnComponent W rq rs c (requested_version rq) (sanitised W rq c)
                           err data ch)) =
           [CacheGet ''file-contents'' (format_key (name c) (version c) ''template.js''),
            GetCompiledView (name c) (version c),
            RunInNewContext (snd (getCompiledView W (name c) (version c))) template_context]"
    and "runInNewContext W (snd (getCompiledView W (name c) (version c))) template_context
           = Inr ctx \<Longrightarrow>
         get_path ctx [''oc'', ''components'', hashKey (template (files (oc c)))] = Inr tpl \<Longrightarrow>
         events (returnComponent W rq rs c (requested_version rq) (sanitised W rq c)
                   err data ch) =
           [CacheGet ''file-contents'' (format_key (name c) (version c) ''template.js''),
            GetCompiledView (name c) (version c),
            RunInNewContext (snd (getCompiledView W (name c) (version c))) template_context,
            CacheSet ''file-contents'' (format_key (name c) (version c) ''template.js'') tpl,
            RenderTemplate tpl data
              (render_options W rs c (requested_version rq) (sanitised W rq c))] \<and>
         cache_after (returnComponent W rq rs c (requested_version rq) (sanitised W rq c)
                        err data ch) =
           cache_set ''file-contents'' (format_key (name c) (version c) ''template.js'') tpl ch \<and>
         (\<forall>e html.
            renderTemplate W tpl data
              (render_options W rs c (requested_version rq) (sanitised W rq c))
              = CallsBack e html \<longrightarrow>
            outcome (returnComponent W rq rs c (requested_version rq) (sanitised W rq c)
                       err data ch) = ok_with (rendered_body W rq rs c html))"
  using assms
  by (auto simp add: returnComponent_def Let_def returnResult_ok simp del: get_path.simps
        split: prod.splits sum.splits)

lemma invoke_prerendered_run:
  assumes "headers_accept rq = prerendered" and "is_function f"
  shows "events (invoke W rq rs c (requested_version rq) (sanitised W rq c) f reqObj ch)
           = [Call f reqObj]"
    and "cache_after (invoke W rq rs c (requested_version rq) (sanitised W rq c) f reqObj ch)
           = ch"
    and "call W f reqObj = CallsBack err data \<Longrightarrow> \<not> truthy err \<Longrightarrow>
         outcome (invoke W rq rs c (requested_version rq) (sanitised W rq c) f reqObj ch)
           = ok_with (prerendered_body W rq rs c data)"
  using assms
  by (auto simp add: invoke_def returnComponent_prerendered returnComponent_prerendered_run
        split: callback_outcome.splits)

lemma data_stage_no_provider:
  "\<not> truthy (dataProvider (files (oc c))) \<Longrightarrow>
     data_stage W rq rs c rv ps ch = returnComponent W rq rs c rv ps Null (Obj []) ch"
  by (simp add: data_stage_def)

lemma data_stage_prerendered_hit:
  assumes "headers_accept rq = prerendered" and "truthy (dataProvider (files (oc c)))"
    and "\<not> local (res_conf rs)"
    and "is_function (cache_get ch ''file-contents''
                        (format_key (name c) (version c) ''server.js''))"
  shows "events (data_stage W rq rs c (requested_version rq) (sanitised W rq c) ch) =
           [CacheGet ''file-contents'' (format_key (name c) (version c) ''server.js''),
            Call (cache_get ch ''file-contents'' (format_key (name c) (version c) ''server.js''))
                 (reqObj_of W rq rs c (sanitised W rq c))]"
    and "cache_after (data_stage W rq rs c (requested_version rq) (sanitised W rq c) ch) = ch"
    and "call W (cache_get ch ''file-contents'' (format_key (name c) (version c) ''server.js''))
              (reqObj_of W rq rs c (sanitised W rq c)) = CallsBack err data \<Longrightarrow>
         \<not> truthy err \<Longrightarrow>
         outcome (data_stage W rq rs c (requested_version rq) (sanitised W rq c) ch)
           = ok_with (prerendered_body W rq rs c data)"
  using assms
  by (simp_all add: data_stage_def Let_def is_function_truthy invoke_prerendered_run)

lemma data_stage_prerendered_compile:
  assumes "headers_accept rq = prerendered" and "truthy (dataProvider (files (oc c)))"
    and "local (res_conf rs) \<or>
         \<not> truthy (cache_get ch ''file-contents''
                     (format_key (name c) (version c) ''server.js''))"
  shows "take 2 (events (data_stage W rq rs c (requested_version rq) (sanitised W rq c) ch)) =
           [CacheGet ''file-contents'' (format_key (name c) (version c) ''server.js''),
            GetDataProvider (name c) (version c)]"
    and "\<not> truthy (fst (getDataProvider W (name c) (version c))) \<Longrightarrow>
         runInNewContext W (snd (getDataProvider W (name c) (version c))) (data_context rs)
           = Inr ctx \<Longrightarrow>
         get_path ctx [''module'', ''exports'', ''data''] = Inr processData \<Longrightarrow>
         is_function processData \<Longrightarrow>
         events (data_stage W rq rs c (requested_version rq) (sanitised W rq c) ch) =
           [CacheGet ''file-contents'' (format_key (name c) (version c) ''server.js''),
            GetDataProvider (name c) (version c),
            RunInNewContext (snd (getDataProvider W (name c) (version c))) (data_context rs),
            CacheSet ''file-contents'' (format_key (name c) (version c) ''server.js'')
              processData,
            Call processData (reqObj_of W rq rs c (sanitised W rq c))] \<and>
         cache_after (data_stage W rq rs c (requested_version rq) (sanitised W rq c) ch) =
           cache_set ''file-contents'' (format_key (name c) (version c) ''server.js'')
             processData ch \<and>
         (\<forall>err data.
            call W processData (reqObj_of W rq rs c (sanitised W rq c)) = CallsBack err data \<and>
            \<not> truthy err \<longrightarrow>
            outcome (data_stage W rq rs c (requested_version rq) (sanitised W rq c) ch)
              = ok_with (prerendered_body W rq rs c data))"
  using assms
  by (auto simp add: data_stage_def Let_def invoke_prerendered_run simp del: get_path.simps
        split: prod.splits)

lemma cache_set_truthy:
  "truthy v \<Longrightarrow> cache_set ty key v ch = ch((ty, key) \<mapsto> v)"
  by (simp add: cache_set_def)

subsection \<open>The sample requests\<close>

lemmas sample_defs = prerendered_request_def rendered_request_def render_request_def
  registry_res_def greeter_def banner_def requested_version_def js_or_def demo_defs

lemma greeter_reads:
  "name greeter = ''greeter''"
  "version greeter = ''2.0.0''"
  "truthy (dataProvider (files (oc greeter)))"
  "hashKey (template (files (oc greeter))) = ''def456''"
  "format_key ''greeter'' ''2.0.0'' ''server.js'' = ''greeter/2.0.0/server.js''"
  "format_key ''greeter'' ''2.0.0'' ''template.js'' = ''greeter/2.0.0/template.js''"
  "getDataProvider demo ''greeter'' ''2.0.0'' = (Null, Str ''module.exports.data = greet'')"
  "getCompiledView demo ''greeter'' ''2.0.0'' = (Null, Str ''view greeter'')"
  "runInNewContext demo (Str ''module.exports.data = greet'') (data_context (registry_res dev))
     = Inr (greeter_data_context dev)"
  "get_path (greeter_data_context dev) [''module'', ''exports'', ''data''] = Inr (Closure 1)"
  "runInNewContext demo (Str ''view greeter'') template_context
     = Inr (view_context ''def456'' 3)"
  "get_path (view_context ''def456'' 3) [''oc'', ''components'', ''def456''] = Inr (Closure 3)"
  "call demo (Closure 1) arg = CallsBack Null greeter_data"
  "renderTemplate demo (Closure 3) d opts = CallsBack Null (Str ''<p>hello</p>'')"
  by (simp_all add: sample_defs format_key_def data_context_def template_context_def
        greeter_data_context_def view_context_def greeter_data_def)

lemma banner_reads:
  "name banner = ''banner''"
  "version banner = ''1.0.0''"
  "\<not> truthy (dataProvider (files (oc banner)))"
  "hashKey (template (files (oc banner))) = ''abc123''"
  "format_key ''banner'' ''1.0.0'' ''template.js'' = ''banner/1.0.0/template.js''"
  "getCompiledView demo ''banner'' ''1.0.0'' = (Null, Str ''view banner'')"
  "runInNewContext demo (Str ''view banner'') (Obj [(''jade'', JadeRuntime)])
     = Inr (view_context ''abc123'' 2)"
  "get_path (view_context ''abc123'' 2) [''oc'', ''components'', ''abc123''] = Inr (Closure 2)"
  "renderTemplate demo (Closure 2) d opts = CallsBack Null (Str ''<div>banner</div>'')"
  by (simp_all add: sample_defs format_key_def view_context_def)

lemma registry_reads:
  "local (res_conf (registry_res dev)) = dev"
  "cache_get Map.empty ty key = Undefined"
  "cache_get warm_cache ''file-contents'' ''greeter/2.0.0/server.js'' = Closure 1"
  "cache_get warm_cache ''file-contents'' ''greeter/2.0.0/template.js'' = Closure 3"
  by (simp_all add: registry_res_def cache_get_def cache_set_def warm_cache_def)

lemma prerendered_requests:
  "headers_accept (prerendered_request n) = prerendered"
  "params_componentName (prerendered_request n) = Str n"
  "requested_version (prerendered_request n) = Str ''''"
  by (simp_all add: sample_defs)

lemma rendered_requests:
  "headers_accept (rendered_request n) \<noteq> prerendered"
  "params_componentName (rendered_request n) = Str n"
  "requested_version (rendered_request n) = Str ''''"
  by (simp_all add: sample_defs prerendered_def)

lemma sample_resolved:
  "resolved demo (prerendered_request ''greeter'') greeter"
  "resolved demo (rendered_request ''greeter'') greeter"
  "resolved demo (prerendered_request ''banner'') banner"
  "resolved demo (rendered_request ''banner'') banner"
  by (simp_all add: resolved_def sanitised_def sample_defs)

lemma sample_objects:
  "reqObj_of demo (prerendered_request ''greeter'') (registry_res dev) greeter
     (sanitised demo (prerendered_request ''greeter'') greeter) = greeter_reqObj"
  "reqObj_of demo (rendered_request ''greeter'') (registry_res dev) greeter
     (sanitised demo (rendered_request ''greeter'') greeter) = greeter_reqObj"
  "render_options demo (registry_res dev) greeter (Str '''')
     (sanitised demo (rendered_request ''greeter'') greeter) = greeter_options"
  "render_options demo (registry_res dev) banner (Str '''')
     (sanitised demo (rendered_request ''banner'') banner) = banner_options"
  "ok_with (prerendered_body demo (prerendered_request ''greeter'') (registry_res False)
              greeter greeter_data) = Responded greeter_prerendered"
  "ok_with (prerendered_body demo (prerendered_request ''banner'') (registry_res False)
              banner (Obj [])) = Responded banner_prerendered"
  "ok_with (rendered_body demo (rendered_request ''greeter'') (registry_res False)
              greeter (Str ''<p>hello</p>'')) = Responded greeter_rendered"
  "ok_with (rendered_body demo (rendered_request ''banner'') (registry_res False)
              banner (Str ''<div>banner</div>''))
     = Responded (banner_rendered ''http://oc/banner'' '''')"
  by (simp_all add: reqObj_of_def render_options_def componentHref_def sanitised_def
        ok_with_def prerendered_body_def rendered_body_def sample_defs greeter_reqObj_def
        greeter_options_def banner_options_def greeter_data_def greeter_prerendered_def
        banner_prerendered_def greeter_rendered_def banner_rendered_def)

lemmas sample_reads = greeter_reads banner_reads registry_reads prerendered_requests
  rendered_requests sample_objects

subsection \<open>Prerendered requests\<close>

text \<open>
  C1 (as the code has it). For a request whose accept header is the prerendered media
  type and whose component is found with valid parameters, the template sandbox is
  skipped but the data stage is not. No compiled view is fetched, nothing runs in the
  template context and no render function is called. If the component declares no
  data-provider, the run makes no further call, leaves the cache as it was and answers
  200 with the empty object as data. If it declares one and, in production mode, the
  cache holds a function under \<open>name/version/server.js\<close>, the run reads the cache and
  calls that function with the request context, makes no other call and leaves the
  cache as it was; when the function calls back without an error the answer is 200
  with the data it passed. On a miss, or in local mode, the run reads the cache and
  fetches the data-provider source; when the fetch succeeds and the source, run in the
  data-provider context, exports a function as \<open>data\<close>, the run stores that function
  under the key and calls it, and answers 200 with the data it calls back with. The
  body of every 200 answer is \<open>{href, type, version, requestVersion, data, template:
  {src, type, key}, renderMode: 'pre-rendered'}\<close>, where \<open>data\<close> is the empty object
  or what the called data-provider passed to its callback; the request parameters
  appear in \<open>href\<close> only.
\<close>

theorem prerendered_response:
  assumes "headers_accept rq = prerendered" and "resolved W rq c"
  shows
   "(\<forall>ev \<in> set (events (component_route W rq rs ch)). \<not> template_sandbox_event ev) \<and>
    (\<not> truthy (dataProvider (files (oc c))) \<longrightarrow>
       component_route W rq rs ch =
         \<lparr>outcome = ok_with (prerendered_body W rq rs c (Obj [])),
          events = [GetComponent (params_componentName rq) (requested_version rq)],
          cache_after = ch\<rparr>) \<and>
    (truthy (dataProvider (files (oc c))) \<and> \<not> local (res_conf rs) \<and>
     is_function (cache_get ch ''file-contents''
                    (format_key (name c) (version c) ''server.js'')) \<longrightarrow>
       events (component_route W rq rs ch) =
         [GetComponent (params_componentName rq) (requested_version rq),
          CacheGet ''file-contents'' (format_key (name c) (version c) ''server.js''),
          Call (cache_get ch ''file-contents'' (format_key (name c) (version c) ''server.js''))
               (reqObj_of W rq rs c (sanitised W rq c))] \<and>
       cache_after (component_route W rq rs ch) = ch \<and>
       (\<forall>err data.
          call W (cache_get ch ''file-contents''
                    (format_key (name c) (version c) ''server.js''))
                 (reqObj_of W rq rs c (sanitised W rq c)) = CallsBack err data \<and>
          \<not> truthy err \<longrightarrow>
          outcome (component_route W rq rs ch) = ok_with (prerendered_body W rq rs c data))) \<and>
    (truthy (dataProvider (files (oc c))) \<and>
     (local (res_conf rs) \<or>
      \<not> truthy (cache_get ch ''file-contents''
                  (format_key (name c) (version c) ''server.js''))) \<longrightarrow>
       take 3 (events (component_route W rq rs ch)) =
         [GetComponent (params_componentName rq) (requested_version rq),
          CacheGet ''file-contents'' (format_key (name c) (version c) ''server.js''),
          GetDataProvider (name c) (version c)] \<and>
       (\<forall>ctx processData.
          \<not> truthy (fst (getDataProvider W (name c) (version c))) \<and>
          runInNewContext W (snd (getDataProvider W (name c) (version c))) (data_context rs)
            = Inr ctx \<and>
          get_path ctx [''module'', ''exports'', ''data''] = Inr processData \<and>
          is_function processData \<longrightarrow>
            events (component_route W rq rs ch) =
              [GetComponent (params_componentName rq) (requested_version rq),
               CacheGet ''file-contents'' (format_key (name c) (version c) ''server.js''),
               GetDataProvider (name c) (version c),
               RunInNewContext (snd (getDataProvider W (name c) (version c)))
                 (data_context rs),
               CacheSet ''file-contents'' (format_key (name c) (version c) ''server.js'')
                 processData,
               Call processData (reqObj_of W rq rs c (sanitised W rq c))] \<and>
            cache_after (component_route W rq rs ch) =
              ch((''file-contents'', format_key (name c) (version c) ''server.js'')
                   \<mapsto> processData) \<and>
            (\<forall>err data.
               call W processData (reqObj_of W rq rs c (sanitised W rq c))
                 = CallsBack err data \<and> \<not> truthy err \<longrightarrow>
               outcome (component_route W rq rs ch)
                 = ok_with (prerendered_body W rq rs c data)))) \<and>
    (\<forall>r. outcome (component_route W rq rs ch) = Responded r \<and> status r = 200 \<longrightarrow>
       (\<exists>data. body r = prerendered_body W rq rs c data \<and>
          (if truthy (dataProvider (files (oc c))) then
             \<exists>f err.
               Call f (reqObj_of W rq rs c (sanitised W rq c))
                 \<in> set (events (component_route W rq rs ch)) \<and>
               call W f (reqObj_of W rq rs c (sanitised W rq c)) = CallsBack err data \<and>
               \<not> truthy err
           else data = Obj [])))"
proof -
  let ?rv = "requested_version rq" and ?ps = "sanitised W rq c"
  let ?get = "GetComponent (params_componentName rq) (requested_version rq)"
  note route = component_route_resolved [OF assms(2), of rs ch]
  have skip: "\<forall>ev \<in> set (events (component_route W rq rs ch)). \<not> template_sandbox_event ev"
  proof
    fix ev assume "ev \<in> set (events (component_route W rq rs ch))"
    then show "\<not> template_sandbox_event ev"
      using assms(1)
      by (auto dest!: component_route_events data_stage_events invoke_events
            simp add: returnComponent_prerendered)
  qed
  have none: "\<not> truthy (dataProvider (files (oc c))) \<longrightarrow>
       component_route W rq rs ch =
         \<lparr>outcome = ok_with (prerendered_body W rq rs c (Obj [])),
          events = [?get], cache_after = ch\<rparr>"
    using assms(1)
    by (simp add: route data_stage_no_provider returnComponent_prerendered_run after_def)
  have hit: "truthy (dataProvider (files (oc c))) \<and> \<not> local (res_conf rs) \<and>
     is_function (cache_get ch ''file-contents''
                    (format_key (name c) (version c) ''server.js'')) \<longrightarrow>
       events (component_route W rq rs ch) =
         [?get,
          CacheGet ''file-contents'' (format_key (name c) (version c) ''server.js''),
          Call (cache_get ch ''file-contents'' (format_key (name c) (version c) ''server.js''))
               (reqObj_of W rq rs c ?ps)] \<and>
       cache_after (component_route W rq rs ch) = ch \<and>
       (\<forall>err data.
          call W (cache_get ch ''file-contents''
                    (format_key (name c) (version c) ''server.js''))
                 (reqObj_of W rq rs c ?ps) = CallsBack err data \<and>
          \<not> truthy err \<longrightarrow>
          outcome (component_route W rq rs ch) = ok_with (prerendered_body W rq rs c data))"
    using data_stage_prerendered_hit [of rq c rs ch W, OF assms(1)]
    by (simp add: route)
  have cmp: "truthy (dataProvider (files (oc c))) \<and>
     (local (res_conf rs) \<or>
      \<not> truthy (cache_get ch ''file-contents''
                  (format_key (name c) (version c) ''server.js''))) \<longrightarrow>
       take 3 (events (component_route W rq rs ch)) =
         [?get,
          CacheGet ''file-contents'' (format_key (name c) (version c) ''server.js''),
          GetDataProvider (name c) (version c)] \<and>
       (\<forall>ctx processData.
          \<not> truthy (fst (getDataProvider W (name c) (version c))) \<and>
          runInNewContext W (snd (getDataProvider W (name c) (version c))) (data_context rs)
            = Inr ctx \<and>
          get_path ctx [''module'', ''exports'', ''data''] = Inr processData \<and>
          is_function processData \<longrightarrow>
            events (component_route W rq rs ch) =
              [?get,
               CacheGet ''file-contents'' (format_key (name c) (version c) ''server.js''),
               GetDataProvider (name c) (version c),
               RunInNewContext (snd (getDataProvider W (name c) (version c)))
                 (data_context rs),
               CacheSet ''file-contents'' (format_key (name c) (version c) ''server.js'')
                 processData,
               Call processData (reqObj_of W rq rs c ?ps)] \<and>
            cache_after (component_route W rq rs ch) =
              ch((''file-contents'', format_key (name c) (version c) ''server.js'')
                   \<mapsto> processData) \<and>
            (\<forall>err data.
               call W processData (reqObj_of W rq rs c ?ps)
                 = CallsBack err data \<and> \<not> truthy err \<longrightarrow>
               outcome (component_route W rq rs ch)
                 = ok_with (prerendered_body W rq rs c data)))"
  proof (rule impI, rule conjI)
    assume h: "truthy (dataProvider (files (oc c))) \<and>
     (local (res_conf rs) \<or>
      \<not> truthy (cache_get ch ''file-contents''
                  (format_key (name c) (version c) ''server.js'')))"
    then have "take 2 (events (data_stage W rq rs c ?rv ?ps ch))
        = [CacheGet ''file-contents'' (format_key (name c) (version c) ''server.js''),
           GetDataProvider (name c) (version c)]"
      using data_stage_prerendered_compile(1) [of rq c rs ch W, OF assms(1)] by blast
    then show "take 3 (events (component_route W rq rs ch)) =
         [?get,
          CacheGet ''file-contents'' (format_key (name c) (version c) ''server.js''),
          GetDataProvider (name c) (version c)]"
      by (simp add: route numeral_3_eq_3 numeral_2_eq_2)
  next
    assume h: "truthy (dataProvider (files (oc c))) \<and>
     (local (res_conf rs) \<or>
      \<not> truthy (cache_get ch ''file-contents''
                  (format_key (name c) (version c) ''server.js'')))"
    show "\<forall>ctx processData.
          \<not> truthy (fst (getDataProvider W (name c) (version c))) \<and>
          runInNewContext W (snd (getDataProvider W (name c) (version c))) (data_context rs)
            = Inr ctx \<and>
          get_path ctx [''module'', ''exports'', ''data''] = Inr processData \<and>
          is_function processData \<longrightarrow>
            events (component_route W rq rs ch) =
              [?get,
               CacheGet ''file-contents'' (format_key (name c) (version c) ''server.js''),
               GetDataProvider (name c) (version c),
               RunInNewContext (snd (getDataProvider W (name c) (version c)))
                 (data_context rs),
               CacheSet ''file-contents'' (format_key (name c) (version c) ''server.js'')
                 processData,
               Call processData (reqObj_of W rq rs c ?ps)] \<and>
            cache_after (component_route W rq rs ch) =
              ch((''file-contents'', format_key (name c) (version c) ''server.js'')
                   \<mapsto> processData) \<and>
            (\<forall>err data.
               call W processData (reqObj_of W rq rs c ?ps)
                 = CallsBack err data \<and> \<not> truthy err \<longrightarrow>
               outcome (component_route W rq rs ch)
                 = ok_with (prerendered_body W rq rs c data))"
    proof (rule allI, rule allI, rule impI)
    fix ctx processData
    assume k: "\<not> truthy (fst (getDataProvider W (name c) (version c))) \<and>
          runInNewContext W (snd (getDataProvider W (name c) (version c))) (data_context rs)
            = Inr ctx \<and>
          get_path ctx [''module'', ''exports'', ''data''] = Inr processData \<and>
          is_function processData"
    from data_stage_prerendered_compile(2) [of rq c rs ch W ctx processData, OF assms(1)] h k
    have ds: "events (data_stage W rq rs c ?rv ?ps ch) =
           [CacheGet ''file-contents'' (format_key (name c) (version c) ''server.js''),
            GetDataProvider (name c) (version c),
            RunInNewContext (snd (getDataProvider W (name c) (version c))) (data_context rs),
            CacheSet ''file-contents'' (format_key (name c) (version c) ''server.js'')
              processData,
            Call processData (reqObj_of W rq rs c ?ps)] \<and>
         cache_after (data_stage W rq rs c ?rv ?ps ch) =
           cache_set ''file-contents'' (format_key (name c) (version c) ''server.js'')
             processData ch \<and>
         (\<forall>err data.
            call W processData (reqObj_of W rq rs c ?ps) = CallsBack err data \<and>
            \<not> truthy err \<longrightarrow>
            outcome (data_stage W rq rs c ?rv ?ps ch)
              = ok_with (prerendered_body W rq rs c data))"
      by blast
    from ds k
    show "events (component_route W rq rs ch) =
              [?get,
               CacheGet ''file-contents'' (format_key (name c) (version c) ''server.js''),
               GetDataProvider (name c) (version c),
               RunInNewContext (snd (getDataProvider W (name c) (version c)))
                 (data_context rs),
               CacheSet ''file-contents'' (format_key (name c) (version c) ''server.js'')
                 processData,
               Call processData (reqObj_of W rq rs c ?ps)] \<and>
            cache_after (component_route W rq rs ch) =
              ch((''file-contents'', format_key (name c) (version c) ''server.js'')
                   \<mapsto> processData) \<and>
            (\<forall>err data.
               call W processData (reqObj_of W rq rs c ?ps)
                 = CallsBack err data \<and> \<not> truthy err \<longrightarrow>
               outcome (component_route W rq rs ch)
                 = ok_with (prerendered_body W rq rs c data))"
      unfolding route by (auto simp add: cache_set_def is_function_truthy)
    qed
  qed
  have any: "\<forall>r. outcome (component_route W rq rs ch) = Responded r \<and> status r = 200 \<longrightarrow>
       (\<exists>data. body r = prerendered_body W rq rs c data \<and>
          (if truthy (dataProvider (files (oc c))) then
             \<exists>f err.
               Call f (reqObj_of W rq rs c ?ps)
                 \<in> set (events (component_route W rq rs ch)) \<and>
               call W f (reqObj_of W rq rs c ?ps) = CallsBack err data \<and>
               \<not> truthy err
           else data = Obj []))"
  proof (intro allI impI)
    fix r
    assume r: "outcome (component_route W rq rs ch) = Responded r \<and> status r = 200"
    from r have d: "outcome (data_stage W rq rs c ?rv ?ps ch) = Responded r"
      by (simp add: route)
    have shape: "\<And>err data ch'.
        outcome (returnComponent W rq rs c ?rv ?ps err data ch') = Responded r \<Longrightarrow>
        body r = prerendered_body W rq rs c data \<and> \<not> truthy err"
    proof -
      fix err data ch'
      assume o: "outcome (returnComponent W rq rs c ?rv ?ps err data ch') = Responded r"
      with r have ne: "\<not> truthy err" by (auto dest!: returnComponent_responded)
      from returnComponent_prerendered_run [OF assms(1) ne, of W rs c data ch'] o
      show "body r = prerendered_body W rq rs c data \<and> \<not> truthy err"
        using ne by (auto simp add: ok_with_def)
    qed
    show "\<exists>data. body r = prerendered_body W rq rs c data \<and>
          (if truthy (dataProvider (files (oc c))) then
             \<exists>f err.
               Call f (reqObj_of W rq rs c ?ps) \<in> set (events (component_route W rq rs ch)) \<and>
               call W f (reqObj_of W rq rs c ?ps) = CallsBack err data \<and> \<not> truthy err
           else data = Obj [])"
    proof (cases "truthy (dataProvider (files (oc c)))")
      case False
      with d r have "outcome (returnComponent W rq rs c ?rv ?ps Null (Obj []) ch) = Responded r"
        by (auto dest!: data_stage_responded)
      from shape [OF this] False show ?thesis by auto
    next
      case True
      with d r obtain f err data ch' where
        f: "Call f (reqObj_of W rq rs c ?ps) \<in> set (events (data_stage W rq rs c ?rv ?ps ch))"
          "call W f (reqObj_of W rq rs c ?ps) = CallsBack err data"
          "outcome (returnComponent W rq rs c ?rv ?ps err data ch') = Responded r"
        by (auto dest!: data_stage_responded)
      from shape [OF f(3)] f(1,2) True show ?thesis by (auto simp add: route)
    qed
  qed
  from skip none hit cmp any show ?thesis by blast
qed

theorem prerendered_response_witness:
  "headers_accept (prerendered_request ''greeter'') = prerendered \<and>
   resolved demo (prerendered_request ''greeter'') greeter \<and>
   events (component_route demo (prerendered_request ''greeter'') (registry_res False)
             warm_cache) =
     [GetComponent (Str ''greeter'') (Str ''''),
      CacheGet ''file-contents'' ''greeter/2.0.0/server.js'',
      Call (Closure 1) greeter_reqObj] \<and>
   cache_after (component_route demo (prerendered_request ''greeter'') (registry_res False)
                  warm_cache) = warm_cache \<and>
   outcome (component_route demo (prerendered_request ''greeter'') (registry_res False)
              warm_cache) = Responded greeter_prerendered \<and>
   events (demo_run (prerendered_request ''greeter'')) =
     [GetComponent (Str ''greeter'') (Str ''''),
      CacheGet ''file-contents'' ''greeter/2.0.0/server.js'',
      GetDataProvider ''greeter'' ''2.0.0'',
      RunInNewContext (Str ''module.exports.data = greet'')
        (data_context (registry_res False)),
      CacheSet ''file-contents'' ''greeter/2.0.0/server.js'' (Closure 1),
      Call (Closure 1) greeter_reqObj] \<and>
   outcome (demo_run (prerendered_request ''greeter'')) = Responded greeter_prerendered \<and>
   headers_accept (prerendered_request ''banner'') = prerendered \<and>
   resolved demo (prerendered_request ''banner'') banner \<and>
   demo_run (prerendered_request ''banner'') =
     \<lparr>outcome = Responded banner_prerendered,
      events = [GetComponent (Str ''banner'') (Str '''')],
      cache_after = Map.empty\<rparr>"
proof -
  note g = prerendered_response [OF prerendered_requests(1) sample_resolved(1)]
  note b = prerendered_response [OF prerendered_requests(1) sample_resolved(3)]
  have h: "truthy (dataProvider (files (oc greeter))) \<and>
      \<not> local (res_conf (registry_res False)) \<and>
      is_function (cache_get warm_cache ''file-contents''
                     (format_key (name greeter) (version greeter) ''server.js''))"
    by (simp add: sample_reads)
  note hit = g [of "registry_res False" warm_cache, THEN conjunct2, THEN conjunct2,
      THEN conjunct1, rule_format, OF h]
  have 1: "events (component_route demo (prerendered_request ''greeter'') (registry_res False)
             warm_cache) =
     [GetComponent (Str ''greeter'') (Str ''''),
      CacheGet ''file-contents'' ''greeter/2.0.0/server.js'',
      Call (Closure 1) greeter_reqObj] \<and>
   cache_after (component_route demo (prerendered_request ''greeter'') (registry_res False)
                  warm_cache) = warm_cache \<and>
   outcome (component_route demo (prerendered_request ''greeter'') (registry_res False)
              warm_cache) = Responded greeter_prerendered"
    using hit by (simp add: sample_reads del: One_nat_def)
  have m: "truthy (dataProvider (files (oc greeter))) \<and>
      (local (res_conf (registry_res False)) \<or>
       \<not> truthy (cache_get Map.empty ''file-contents''
                   (format_key (name greeter) (version greeter) ''server.js'')))"
    by (simp add: sample_reads)
  have p: "\<not> truthy (fst (getDataProvider demo (name greeter) (version greeter))) \<and>
      runInNewContext demo (snd (getDataProvider demo (name greeter) (version greeter)))
        (data_context (registry_res False)) = Inr (greeter_data_context False) \<and>
      get_path (greeter_data_context False) [''module'', ''exports'', ''data'']
        = Inr (Closure 1) \<and>
      is_function (Closure 1)"
    by (simp add: sample_reads del: get_path.simps)
  note cmp = g [of "registry_res False" Map.empty, THEN conjunct2, THEN conjunct2,
      THEN conjunct2, THEN conjunct1, rule_format, OF m, THEN conjunct2, rule_format, OF p]
  have 2: "events (demo_run (prerendered_request ''greeter'')) =
     [GetComponent (Str ''greeter'') (Str ''''),
      CacheGet ''file-contents'' ''greeter/2.0.0/server.js'',
      GetDataProvider ''greeter'' ''2.0.0'',
      RunInNewContext (Str ''module.exports.data = greet'')
        (data_context (registry_res False)),
      CacheSet ''file-contents'' ''greeter/2.0.0/server.js'' (Closure 1),
      Call (Closure 1) greeter_reqObj] \<and>
   outcome (demo_run (prerendered_request ''greeter'')) = Responded greeter_prerendered"
    using cmp by (simp add: sample_reads demo_run_def del: One_nat_def)
  have 3: "demo_run (prerendered_request ''banner'') =
     \<lparr>outcome = Responded banner_prerendered,
      events = [GetComponent (Str ''banner'') (Str '''')],
      cache_after = Map.empty\<rparr>"
    using b [of "registry_res False" Map.empty, THEN conjunct2, THEN conjunct1]
    by (simp add: sample_reads demo_run_def)
  from 1 2 3 prerendered_requests(1) sample_resolved show ?thesis by simp
qed

subsection \<open>Components without a data-provider\<close>

text \<open>
  C7. For a component whose files declare no data-provider, no call on the sandbox's
  data path is made (no fetch of a data-provider source, no run in the data-provider
  context, no call of a data-provider function) and every render call gets the empty
  object as data. When the component is found with valid parameters the render goes
  ahead with that data: a prerendered request is answered 200 at once, with
  \<open>data\<close> the empty object; a rendered request in production mode whose template
  function is cached reads the cache, calls the render function with the cached
  template and the empty object, and answers 200 with the html called back; on a miss,
  or in local mode, the run fetches the compiled view and runs it in the template
  context and, when that yields the template function, stores it, calls the render
  function with it and the empty object, and answers 200 with the html called back.
\<close>

theorem no_data_provider:
  assumes "getComponent W (params_componentName rq) (requested_version rq) = (e, Some c)"
    and "\<not> truthy (dataProvider (files (oc c)))"
  shows
   "(\<forall>ev \<in> set (events (component_route W rq rs ch)). \<not> data_path_event rs ev) \<and>
    (\<forall>tpl d opts. RenderTemplate tpl d opts \<in> set (events (component_route W rq rs ch))
       \<longrightarrow> d = Obj []) \<and>
    (resolved W rq c \<and> headers_accept rq = prerendered \<longrightarrow>
       component_route W rq rs ch =
         \<lparr>outcome = ok_with (prerendered_body W rq rs c (Obj [])),
          events = [GetComponent (params_componentName rq) (requested_version rq)],
          cache_after = ch\<rparr>) \<and>
    (resolved W rq c \<and> headers_accept rq \<noteq> prerendered \<and> \<not> local (res_conf rs) \<and>
     truthy (cache_get ch ''file-contents''
               (format_key (name c) (version c) ''template.js'')) \<longrightarrow>
       events (component_route W rq rs ch) =
         [GetComponent (params_componentName rq) (requested_version rq),
          CacheGet ''file-contents'' (format_key (name c) (version c) ''template.js''),
          RenderTemplate
            (cache_get ch ''file-contents'' (format_key (name c) (version c) ''template.js''))
            (Obj []) (render_options W rs c (requested_version rq) (sanitised W rq c))] \<and>
       cache_after (component_route W rq rs ch) = ch \<and>
       (\<forall>err html.
          renderTemplate W
            (cache_get ch ''file-contents'' (format_key (name c) (version c) ''template.js''))
            (Obj []) (render_options W rs c (requested_version rq) (sanitised W rq c))
            = CallsBack err html \<longrightarrow>
          outcome (component_route W rq rs ch) = ok_with (rendered_body W rq rs c html))) \<and>
    (resolved W rq c \<and> headers_accept rq \<noteq> prerendered \<and>
     (local (res_conf rs) \<or>
      \<not> truthy (cache_get ch ''file-contents''
                  (format_key (name c) (version c) ''template.js''))) \<longrightarrow>
       take 4 (events (component_route W rq rs ch)) =
         [GetComponent (params_componentName rq) (requested_version rq),
          CacheGet ''file-contents'' (format_key (name c) (version c) ''template.js''),
          GetCompiledView (name c) (version c),
          RunInNewContext (snd (getCompiledView W (name c) (version c)))
            (Obj [(''jade'', JadeRuntime)])] \<and>
       (\<forall>ctx tpl.
          runInNewContext W (snd (getCompiledView W (name c) (version c)))
            (Obj [(''jade'', JadeRuntime)]) = Inr ctx \<and>
          get_path ctx [''oc'', ''components'', hashKey (template (files (oc c)))] = Inr tpl
          \<longrightarrow>
            events (component_route W rq rs ch) =
              [GetComponent (params_componentName rq) (requested_version rq),
               CacheGet ''file-contents'' (format_key (name c) (version c) ''template.js''),
               GetCompiledView (name c) (version c),
               RunInNewContext (snd (getCompiledView W (name c) (version c)))
                 (Obj [(''jade'', JadeRuntime)]),
               CacheSet ''file-contents'' (format_key (name c) (version c) ''template.js'')
                 tpl,
               RenderTemplate tpl (Obj [])
                 (render_options W rs c (requested_version rq) (sanitised W rq c))] \<and>
            (\<forall>err html.
               renderTemplate W tpl (Obj [])
                 (render_options W rs c (requested_version rq) (sanitised W rq c))
                 = CallsBack err html \<longrightarrow>
               outcome (component_route W rq rs ch)
                 = ok_with (rendered_body W rq rs c html))))"
proof -
  let ?rv = "requested_version rq" and ?ps = "sanitised W rq c"
  let ?get = "GetComponent (params_componentName rq) (requested_version rq)"
  let ?key = "format_key (name c) (version c) ''template.js''"
  let ?R = "returnComponent W rq rs c ?rv ?ps Null (Obj []) ch"
  have never: "\<forall>ev \<in> set (events (component_route W rq rs ch)). \<not> data_path_event rs ev"
  proof
    fix ev assume "ev \<in> set (events (component_route W rq rs ch))"
    then show "\<not> data_path_event rs ev"
      using assms
      by (auto dest!: component_route_events data_stage_events returnComponent_events)
  qed
  have empty: "\<forall>tpl d opts.
      RenderTemplate tpl d opts \<in> set (events (component_route W rq rs ch)) \<longrightarrow> d = Obj []"
    using assms
    by (auto dest!: component_route_events data_stage_events returnComponent_events)
  have route: "resolved W rq c \<Longrightarrow> component_route W rq rs ch = after [?get] ?R"
    using assms(2) by (simp add: component_route_resolved data_stage_no_provider)
  have pre: "resolved W rq c \<and> headers_accept rq = prerendered \<longrightarrow>
       component_route W rq rs ch =
         \<lparr>outcome = ok_with (prerendered_body W rq rs c (Obj [])),
          events = [?get], cache_after = ch\<rparr>"
    by (simp add: route returnComponent_prerendered_run after_def)
  have hit: "resolved W rq c \<and> headers_accept rq \<noteq> prerendered \<and> \<not> local (res_conf rs) \<and>
     truthy (cache_get ch ''file-contents'' ?key) \<longrightarrow>
       events (component_route W rq rs ch) =
         [?get, CacheGet ''file-contents'' ?key,
          RenderTemplate (cache_get ch ''file-contents'' ?key) (Obj [])
            (render_options W rs c ?rv ?ps)] \<and>
       cache_after (component_route W rq rs ch) = ch \<and>
       (\<forall>err html.
          renderTemplate W (cache_get ch ''file-contents'' ?key) (Obj [])
            (render_options W rs c ?rv ?ps) = CallsBack err html \<longrightarrow>
          outcome (component_route W rq rs ch) = ok_with (rendered_body W rq rs c html))"
    using returnComponent_hit_run [of Null rq rs ch c W "Obj []"]
    by (auto simp add: route)
  have cmp: "resolved W rq c \<and> headers_accept rq \<noteq> prerendered \<and>
     (local (res_conf rs) \<or> \<not> truthy (cache_get ch ''file-contents'' ?key)) \<longrightarrow>
       take 4 (events (component_route W rq rs ch)) =
         [?get, CacheGet ''file-contents'' ?key, GetCompiledView (name c) (version c),
          RunInNewContext (snd (getCompiledView W (name c) (version c)))
            (Obj [(''jade'', JadeRuntime)])] \<and>
       (\<forall>ctx tpl.
          runInNewContext W (snd (getCompiledView W (name c) (version c)))
            (Obj [(''jade'', JadeRuntime)]) = Inr ctx \<and>
          get_path ctx [''oc'', ''components'', hashKey (template (files (oc c)))] = Inr tpl
          \<longrightarrow>
            events (component_route W rq rs ch) =
              [?get, CacheGet ''file-contents'' ?key, GetCompiledView (name c) (version c),
               RunInNewContext (snd (getCompiledView W (name c) (version c)))
                 (Obj [(''jade'', JadeRuntime)]),
               CacheSet ''file-contents'' ?key tpl,
               RenderTemplate tpl (Obj []) (render_options W rs c ?rv ?ps)] \<and>
            (\<forall>err html.
               renderTemplate W tpl (Obj []) (render_options W rs c ?rv ?ps)
                 = CallsBack err html \<longrightarrow>
               outcome (component_route W rq rs ch)
                 = ok_with (rendered_body W rq rs c html)))"
  proof (rule impI, rule conjI)
    assume h: "resolved W rq c \<and> headers_accept rq \<noteq> prerendered \<and>
     (local (res_conf rs) \<or> \<not> truthy (cache_get ch ''file-contents'' ?key))"
    then have "take 3 (events ?R) =
           [CacheGet ''file-contents'' ?key, GetCompiledView (name c) (version c),
            RunInNewContext (snd (getCompiledView W (name c) (version c))) template_context]"
      using returnComponent_compile_run(1) [of Null rq rs ch c W "Obj []"] by simp
    with h show "take 4 (events (component_route W rq rs ch)) =
         [?get, CacheGet ''file-contents'' ?key, GetCompiledView (name c) (version c),
          RunInNewContext (snd (getCompiledView W (name c) (version c)))
            (Obj [(''jade'', JadeRuntime)])]"
      by (simp add: route numeral_3_eq_3 template_context_def
            Suc_numeral [symmetric] del: Suc_numeral)
  next
    assume h: "resolved W rq c \<and> headers_accept rq \<noteq> prerendered \<and>
     (local (res_conf rs) \<or> \<not> truthy (cache_get ch ''file-contents'' ?key))"
    show "\<forall>ctx tpl.
          runInNewContext W (snd (getCompiledView W (name c) (version c)))
            (Obj [(''jade'', JadeRuntime)]) = Inr ctx \<and>
          get_path ctx [''oc'', ''components'', hashKey (template (files (oc c)))] = Inr tpl
          \<longrightarrow>
            events (component_route W rq rs ch) =
              [?get, CacheGet ''file-contents'' ?key, GetCompiledView (name c) (version c),
               RunInNewContext (snd (getCompiledView W (name c) (version c)))
                 (Obj [(''jade'', JadeRuntime)]),
               CacheSet ''file-contents'' ?key tpl,
               RenderTemplate tpl (Obj []) (render_options W rs c ?rv ?ps)] \<and>
            (\<forall>err html.
               renderTemplate W tpl (Obj []) (render_options W rs c ?rv ?ps)
                 = CallsBack err html \<longrightarrow>
               outcome (component_route W rq rs ch)
                 = ok_with (rendered_body W rq rs c html))"
    proof (rule allI, rule allI, rule impI)
      fix ctx tpl
      assume k: "runInNewContext W (snd (getCompiledView W (name c) (version c)))
            (Obj [(''jade'', JadeRuntime)]) = Inr ctx \<and>
          get_path ctx [''oc'', ''components'', hashKey (template (files (oc c)))] = Inr tpl"
      from returnComponent_compile_run(2) [of Null rq rs ch c W ctx tpl "Obj []"] h k
      have rc: "events ?R =
           [CacheGet ''file-contents'' ?key, GetCompiledView (name c) (version c),
            RunInNewContext (snd (getCompiledView W (name c) (version c))) template_context,
            CacheSet ''file-contents'' ?key tpl,
            RenderTemplate tpl (Obj []) (render_options W rs c ?rv ?ps)] \<and>
         (\<forall>e html.
            renderTemplate W tpl (Obj []) (render_options W rs c ?rv ?ps)
              = CallsBack e html \<longrightarrow>
            outcome ?R = ok_with (rendered_body W rq rs c html))"
        unfolding template_context_def by simp
      from h have r: "component_route W rq rs ch = after [?get] ?R"
        by (simp add: route)
      from rc show "events (component_route W rq rs ch) =
              [?get, CacheGet ''file-contents'' ?key, GetCompiledView (name c) (version c),
               RunInNewContext (snd (getCompiledView W (name c) (version c)))
                 (Obj [(''jade'', JadeRuntime)]),
               CacheSet ''file-contents'' ?key tpl,
               RenderTemplate tpl (Obj []) (render_options W rs c ?rv ?ps)] \<and>
            (\<forall>err html.
               renderTemplate W tpl (Obj []) (render_options W rs c ?rv ?ps)
                 = CallsBack err html \<longrightarrow>
               outcome (component_route W rq rs ch)
                 = ok_with (rendered_body W rq rs c html))"
        unfolding r template_context_def by auto
    qed
  qed
  from never empty pre hit cmp show ?thesis by blast
qed

theorem no_data_provider_witness:
  "getComponent demo (params_componentName (rendered_request ''banner''))
     (requested_version (rendered_request ''banner'')) = (Null, Some banner) \<and>
   \<not> truthy (dataProvider (files (oc banner))) \<and>
   resolved demo (rendered_request ''banner'') banner \<and>
   headers_accept (rendered_request ''banner'') \<noteq> prerendered \<and>
   events (demo_run (rendered_request ''banner'')) =
     [GetComponent (Str ''banner'') (Str ''''),
      CacheGet ''file-contents'' ''banner/1.0.0/template.js'',
      GetCompiledView ''banner'' ''1.0.0'',
      RunInNewContext (Str ''view banner'') (Obj [(''jade'', JadeRuntime)]),
      CacheSet ''file-contents'' ''banner/1.0.0/template.js'' (Closure 2),
      RenderTemplate (Closure 2) (Obj []) banner_options] \<and>
   outcome (demo_run (rendered_request ''banner''))
     = Responded (banner_rendered ''http://oc/banner'' '''') \<and>
   list_all (\<lambda>ev. \<not> data_path_event (registry_res False) ev)
     (events (demo_run (rendered_request ''banner''))) \<and>
   getComponent demo (params_componentName (prerendered_request ''banner''))
     (requested_version (prerendered_request ''banner'')) = (Null, Some banner) \<and>
   resolved demo (prerendered_request ''banner'') banner \<and>
   demo_run (prerendered_request ''banner'') =
     \<lparr>outcome = Responded banner_prerendered,
      events = [GetComponent (Str ''banner'') (Str '''')],
      cache_after = Map.empty\<rparr>"
proof -
  have found: "getComponent demo (params_componentName (rendered_request ''banner''))
     (requested_version (rendered_request ''banner'')) = (Null, Some banner)"
    "getComponent demo (params_componentName (prerendered_request ''banner''))
     (requested_version (prerendered_request ''banner'')) = (Null, Some banner)"
    by (simp_all add: sample_defs)
  note r = no_data_provider [OF found(1) banner_reads(3), of "registry_res False" Map.empty]
  note q = no_data_provider [OF found(2) banner_reads(3), of "registry_res False" Map.empty]
  have 1: "list_all (\<lambda>ev. \<not> data_path_event (registry_res False) ev)
     (events (demo_run (rendered_request ''banner'')))"
    using r [THEN conjunct1] by (simp add: list_all_iff demo_run_def)
  have m: "resolved demo (rendered_request ''banner'') banner \<and>
      headers_accept (rendered_request ''banner'') \<noteq> prerendered \<and>
      (local (res_conf (registry_res False)) \<or>
       \<not> truthy (cache_get Map.empty ''file-contents''
                   (format_key (name banner) (version banner) ''template.js'')))"
    by (simp add: sample_reads sample_resolved)
  have p: "runInNewContext demo (snd (getCompiledView demo (name banner) (version banner)))
        (Obj [(''jade'', JadeRuntime)]) = Inr (view_context ''abc123'' 2) \<and>
      get_path (view_context ''abc123'' 2)
        [''oc'', ''components'', hashKey (template (files (oc banner)))] = Inr (Closure 2)"
    by (simp add: sample_reads del: get_path.simps)
  note cmp = r [THEN conjunct2, THEN conjunct2, THEN conjunct2, THEN conjunct2, rule_format,
      OF m, THEN conjunct2, rule_format, OF p]
  have 2: "events (demo_run (rendered_request ''banner'')) =
     [GetComponent (Str ''banner'') (Str ''''),
      CacheGet ''file-contents'' ''banner/1.0.0/template.js'',
      GetCompiledView ''banner'' ''1.0.0'',
      RunInNewContext (Str ''view banner'') (Obj [(''jade'', JadeRuntime)]),
      CacheSet ''file-contents'' ''banner/1.0.0/template.js'' (Closure 2),
      RenderTemplate (Closure 2) (Obj []) banner_options] \<and>
   outcome (demo_run (rendered_request ''banner''))
     = Responded (banner_rendered ''http://oc/banner'' '''')"
    using cmp by (simp add: sample_reads demo_run_def del: One_nat_def)
  have 3: "demo_run (prerendered_request ''banner'') =
     \<lparr>outcome = Responded banner_prerendered,
      events = [GetComponent (Str ''banner'') (Str '''')],
      cache_after = Map.empty\<rparr>"
    using q [THEN conjunct2, THEN conjunct2, THEN conjunct1]
    by (simp add: sample_reads sample_resolved demo_run_def)
  from 1 2 3 found banner_reads(3) sample_resolved rendered_requests(1) show ?thesis
    by simp
qed

subsection \<open>The artifact cache\<close>

lemma cache_get_set_other [simp]:
  "key' \<noteq> key \<Longrightarrow>
     cache_get (cache_set ''file-contents'' key v ch) ''file-contents'' key'
       = cache_get ch ''file-contents'' key'"
  by (simp add: cache_get_def cache_set_def)

lemma cache_set_other:
  "key' \<noteq> key \<Longrightarrow>
     cache_set ''file-contents'' key v ch (''file-contents'', key') = ch (''file-contents'', key')"
  by (simp add: cache_set_def)

lemma cache_set_same:
  "truthy v \<Longrightarrow> cache_set ty key v ch (ty, key) = Some v"
  by (simp add: cache_set_def)

lemma returnComponent_cache_other:
  "key \<noteq> format_key (name c) (version c) ''template.js'' \<Longrightarrow>
     cache_after (returnComponent W rq rs c rv ps err data ch) (''file-contents'', key)
       = ch (''file-contents'', key)"
  by (auto simp add: returnComponent_def Let_def cache_set_def
        split: if_splits prod.splits sum.splits)

lemma invoke_cache_other:
  "key \<noteq> format_key (name c) (version c) ''template.js'' \<Longrightarrow>
     cache_after (invoke W rq rs c rv ps f reqObj ch) (''file-contents'', key)
       = ch (''file-contents'', key)"
  by (auto simp add: invoke_def returnComponent_cache_other split: callback_outcome.splits)

lemma invoke_calls:
  "is_function f \<Longrightarrow> Call f reqObj \<in> set (events (invoke W rq rs c rv ps f reqObj ch))"
  by (simp add: invoke_def)

lemma invoke_no_compile:
  "GetDataProvider n v \<notin> set (events (invoke W rq rs c rv ps f reqObj ch)) \<and>
   RunInNewContext code (data_context rs) \<notin> set (events (invoke W rq rs c rv ps f reqObj ch))"
  by (auto dest!: invoke_events returnComponent_events)

lemma data_provider_hit:
  assumes "truthy (dataProvider (files (oc c)))" and "\<not> local (res_conf rs)"
    and "truthy (cache_get ch ''file-contents'' (format_key (name c) (version c) ''server.js''))"
  shows "(\<forall>n v. GetDataProvider n v \<notin> set (events (data_stage W rq rs c rv ps ch))) \<and>
         (\<forall>code. RunInNewContext code (data_context rs)
                   \<notin> set (events (data_stage W rq rs c rv ps ch))) \<and>
         cache_after (data_stage W rq rs c rv ps ch)
             (''file-contents'', format_key (name c) (version c) ''server.js'')
           = ch (''file-contents'', format_key (name c) (version c) ''server.js'') \<and>
         (is_function (cache_get ch ''file-contents''
                         (format_key (name c) (version c) ''server.js'')) \<longrightarrow>
            Call (cache_get ch ''file-contents'' (format_key (name c) (version c) ''server.js''))
                 (reqObj_of W rq rs c ps)
              \<in> set (events (data_stage W rq rs c rv ps ch)))"
  using assms
  by (simp add: data_stage_def Let_def invoke_no_compile invoke_cache_other invoke_calls)

lemma data_provider_compile:
  assumes "truthy (dataProvider (files (oc c)))"
    and "local (res_conf rs) \<or>
         \<not> truthy (cache_get ch ''file-contents'' (format_key (name c) (version c) ''server.js''))"
  shows "GetDataProvider (name c) (version c) \<in> set (events (data_stage W rq rs c rv ps ch)) \<and>
         (\<not> truthy (fst (getDataProvider W (name c) (version c))) \<longrightarrow>
            RunInNewContext (snd (getDataProvider W (name c) (version c))) (data_context rs)
              \<in> set (events (data_stage W rq rs c rv ps ch))) \<and>
         (\<forall>ctx processData.
            \<not> truthy (fst (getDataProvider W (name c) (version c))) \<and>
            runInNewContext W (snd (getDataProvider W (name c) (version c))) (data_context rs)
              = Inr ctx \<and>
            get_path ctx [''module'', ''exports'', ''data''] = Inr processData \<longrightarrow>
              CacheSet ''file-contents'' (format_key (name c) (version c) ''server.js'')
                  processData \<in> set (events (data_stage W rq rs c rv ps ch)) \<and>
              (truthy processData \<longrightarrow>
                 cache_after (data_stage W rq rs c rv ps ch)
                     (''file-contents'', format_key (name c) (version c) ''server.js'')
                   = Some processData) \<and>
              (is_function processData \<longrightarrow>
                 Call processData (reqObj_of W rq rs c ps)
                   \<in> set (events (data_stage W rq rs c rv ps ch))))"
  using assms
  by (auto simp add: data_stage_def Let_def invoke_cache_other invoke_calls cache_set_same
        simp del: get_path.simps split: prod.splits)

text \<open>The template stage, once the run reads the template's cache entry.\<close>

lemma returnComponent_view_hit:
  assumes "CacheGet ''file-contents'' (format_key (name c) (version c) ''template.js'')
             \<in> set (events (returnComponent W rq rs c rv ps err data ch))"
    and "\<not> local (res_conf rs)"
    and "truthy (cache_get ch ''file-contents''
                   (format_key (name c) (version c) ''template.js''))"
  shows "events (returnComponent W rq rs c rv ps err data ch) =
           [CacheGet ''file-contents'' (format_key (name c) (version c) ''template.js''),
            RenderTemplate
              (cache_get ch ''file-contents'' (format_key (name c) (version c) ''template.js''))
              data (render_options W rs c rv ps)]"
    and "cache_after (returnComponent W rq rs c rv ps err data ch) = ch"
  using assms by (auto simp add: returnComponent_def Let_def split: if_splits)

lemma invoke_view_hit:
  assumes "CacheGet ''file-contents'' (format_key (name c) (version c) ''template.js'')
             \<in> set (events (invoke W rq rs c rv ps f reqObj ch))"
    and "\<not> local (res_conf rs)"
    and "truthy (cache_get ch ''file-contents''
                   (format_key (name c) (version c) ''template.js''))"
  shows "\<exists>data. events (invoke W rq rs c rv ps f reqObj ch) =
           [Call f reqObj,
            CacheGet ''file-contents'' (format_key (name c) (version c) ''template.js''),
            RenderTemplate
              (cache_get ch ''file-contents'' (format_key (name c) (version c) ''template.js''))
              data (render_options W rs c rv ps)]"
    and "cache_after (invoke W rq rs c rv ps f reqObj ch) = ch"
  using assms
  by (auto simp add: invoke_def returnComponent_view_hit
        split: if_splits callback_outcome.splits)

lemma data_stage_view_hit:
  assumes "CacheGet ''file-contents'' (format_key (name c) (version c) ''template.js'')
             \<in> set (events (data_stage W rq rs c rv ps ch))"
    and "\<not> local (res_conf rs)"
    and "truthy (cache_get ch ''file-contents''
                   (format_key (name c) (version c) ''template.js''))"
  shows "(\<forall>n v. GetCompiledView n v \<notin> set (events (data_stage W rq rs c rv ps ch))) \<and>
         (\<forall>code. RunInNewContext code template_context
                   \<notin> set (events (data_stage W rq rs c rv ps ch))) \<and>
         cache_after (data_stage W rq rs c rv ps ch)
             (''file-contents'', format_key (name c) (version c) ''template.js'')
           = ch (''file-contents'', format_key (name c) (version c) ''template.js'') \<and>
         (\<exists>data. RenderTemplate
              (cache_get ch ''file-contents'' (format_key (name c) (version c) ''template.js''))
              data (render_options W rs c rv ps)
            \<in> set (events (data_stage W rq rs c rv ps ch)))"
proof (cases "truthy (dataProvider (files (oc c)))")
  case False
  with assms show ?thesis
    by (simp add: data_stage_def returnComponent_view_hit)
next
  case True
  let ?dkey = "format_key (name c) (version c) ''server.js''"
  let ?tkey = "format_key (name c) (version c) ''template.js''"
  show ?thesis
  proof (cases "truthy (cache_get ch ''file-contents'' ?dkey) \<and> \<not> local (res_conf rs)")
    case hit: True
    let ?I = "invoke W rq rs c rv ps (cache_get ch ''file-contents'' ?dkey)
                (reqObj_of W rq rs c ps) ch"
    from True hit have ds: "data_stage W rq rs c rv ps ch =
        after [CacheGet ''file-contents'' ?dkey] ?I"
      by (simp add: data_stage_def Let_def)
    with assms(1) have "CacheGet ''file-contents'' ?tkey \<in> set (events ?I)"
      by simp
    from invoke_view_hit [OF this assms(2,3)] show ?thesis
      unfolding ds by auto
  next
    case miss: False
    with True assms obtain ctx pd where
      run: "runInNewContext W (snd (getDataProvider W (name c) (version c))) (data_context rs)
              = Inr ctx"
      and pd: "get_path ctx [''module'', ''exports'', ''data''] = Inr pd"
      and ok: "\<not> truthy (fst (getDataProvider W (name c) (version c)))"
      by (auto simp add: data_stage_def Let_def simp del: get_path.simps
            split: if_splits prod.splits sum.splits)
    let ?ch = "cache_set ''file-contents'' ?dkey pd ch"
    let ?I = "invoke W rq rs c rv ps pd (reqObj_of W rq rs c ps) ?ch"
    from True miss run pd ok have ds: "data_stage W rq rs c rv ps ch =
        after [CacheGet ''file-contents'' ?dkey, GetDataProvider (name c) (version c),
               RunInNewContext (snd (getDataProvider W (name c) (version c))) (data_context rs),
               CacheSet ''file-contents'' ?dkey pd] ?I"
      by (auto simp add: data_stage_def Let_def after_def simp del: get_path.simps
            split: prod.splits)
    with assms(1) have 1: "CacheGet ''file-contents'' ?tkey \<in> set (events ?I)"
      by simp
    from assms(3) have 3: "truthy (cache_get ?ch ''file-contents'' ?tkey)"
      by simp
    from invoke_view_hit [OF 1 assms(2) 3] show ?thesis
      unfolding ds by (auto simp add: cache_set_other)
  qed
qed

lemma returnComponent_view_compile:
  assumes "CacheGet ''file-contents'' (format_key (name c) (version c) ''template.js'')
             \<in> set (events (returnComponent W rq rs c rv ps err data ch))"
    and "local (res_conf rs) \<or>
         \<not> truthy (cache_get ch ''file-contents''
                     (format_key (name c) (version c) ''template.js''))"
  shows "GetCompiledView (name c) (version c)
           \<in> set (events (returnComponent W rq rs c rv ps err data ch))"
    and "RunInNewContext (snd (getCompiledView W (name c) (version c))) template_context
           \<in> set (events (returnComponent W rq rs c rv ps err data ch))"
    and "runInNewContext W (snd (getCompiledView W (name c) (version c))) template_context
           = Inr ctx \<Longrightarrow>
         get_path ctx [''oc'', ''components'', hashKey (template (files (oc c)))] = Inr tpl \<Longrightarrow>
         CacheSet ''file-contents'' (format_key (name c) (version c) ''template.js'') tpl
           \<in> set (events (returnComponent W rq rs c rv ps err data ch)) \<and>
         cache_after (returnComponent W rq rs c rv ps err data ch) =
           cache_set ''file-contents'' (format_key (name c) (version c) ''template.js'') tpl ch \<and>
         RenderTemplate tpl data (render_options W rs c rv ps)
           \<in> set (events (returnComponent W rq rs c rv ps err data ch))"
  using assms
  by (auto simp add: returnComponent_def Let_def simp del: get_path.simps
        split: if_splits prod.splits sum.splits)

lemma invoke_view_compile:
  assumes "CacheGet ''file-contents'' (format_key (name c) (version c) ''template.js'')
             \<in> set (events (invoke W rq rs c rv ps f reqObj ch))"
    and "local (res_conf rs) \<or>
         \<not> truthy (cache_get ch ''file-contents''
                     (format_key (name c) (version c) ''template.js''))"
  shows "GetCompiledView (name c) (version c)
           \<in> set (events (invoke W rq rs c rv ps f reqObj ch)) \<and>
         RunInNewContext (snd (getCompiledView W (name c) (version c))) template_context
           \<in> set (events (invoke W rq rs c rv ps f reqObj ch)) \<and>
         (\<forall>ctx tpl.
            runInNewContext W (snd (getCompiledView W (name c) (version c))) template_context
              = Inr ctx \<and>
            get_path ctx [''oc'', ''components'', hashKey (template (files (oc c)))] = Inr tpl
            \<longrightarrow>
            CacheSet ''file-contents'' (format_key (name c) (version c) ''template.js'') tpl
              \<in> set (events (invoke W rq rs c rv ps f reqObj ch)) \<and>
            cache_after (invoke W rq rs c rv ps f reqObj ch) =
              cache_set ''file-contents'' (format_key (name c) (version c) ''template.js'')
                tpl ch \<and>
            (\<exists>data. RenderTemplate tpl data (render_options W rs c rv ps)
              \<in> set (events (invoke W rq rs c rv ps f reqObj ch))))"
proof -
  from assms(1) obtain err data where
    1: "CacheGet ''file-contents'' (format_key (name c) (version c) ''template.js'')
          \<in> set (events (returnComponent W rq rs c rv ps err data ch))"
    and inv: "invoke W rq rs c rv ps f reqObj ch =
          after [Call f reqObj] (returnComponent W rq rs c rv ps err data ch)"
    by (auto simp add: invoke_def split: if_splits callback_outcome.splits)
  from returnComponent_view_compile [OF 1 assms(2)] show ?thesis
    unfolding inv by (auto simp del: get_path.simps)
qed

lemma data_stage_view_compile:
  assumes "CacheGet ''file-contents'' (format_key (name c) (version c) ''template.js'')
             \<in> set (events (data_stage W rq rs c rv ps ch))"
    and "local (res_conf rs) \<or>
         \<not> truthy (cache_get ch ''file-contents''
                     (format_key (name c) (version c) ''template.js''))"
  shows "GetCompiledView (name c) (version c)
           \<in> set (events (data_stage W rq rs c rv ps ch)) \<and>
         RunInNewContext (snd (getCompiledView W (name c) (version c))) template_context
           \<in> set (events (data_stage W rq rs c rv ps ch)) \<and>
         (\<forall>ctx tpl.
            runInNewContext W (snd (getCompiledView W (name c) (version c))) template_context
              = Inr ctx \<and>
            get_path ctx [''oc'', ''components'', hashKey (template (files (oc c)))] = Inr tpl
            \<longrightarrow>
            CacheSet ''file-contents'' (format_key (name c) (version c) ''template.js'') tpl
              \<in> set (events (data_stage W rq rs c rv ps ch)) \<and>
            (truthy tpl \<longrightarrow>
               cache_after (data_stage W rq rs c rv ps ch)
                   (''file-contents'', format_key (name c) (version c) ''template.js'')
                 = Some tpl) \<and>
            (\<exists>data. RenderTemplate tpl data (render_options W rs c rv ps)
              \<in> set (events (data_stage W rq rs c rv ps ch))))"
proof (cases "truthy (dataProvider (files (oc c)))")
  case False
  with assms have 1: "CacheGet ''file-contents'' (format_key (name c) (version c) ''template.js'')
      \<in> set (events (returnComponent W rq rs c rv ps Null (Obj []) ch))"
    by (simp add: data_stage_def)
  from False returnComponent_view_compile [OF 1 assms(2)] show ?thesis
    by (auto simp add: data_stage_def cache_set_same simp del: get_path.simps)
next
  case True
  let ?dkey = "format_key (name c) (version c) ''server.js''"
  let ?tkey = "format_key (name c) (version c) ''template.js''"
  show ?thesis
  proof (cases "truthy (cache_get ch ''file-contents'' ?dkey) \<and> \<not> local (res_conf rs)")
    case hit: True
    let ?I = "invoke W rq rs c rv ps (cache_get ch ''file-contents'' ?dkey)
                (reqObj_of W rq rs c ps) ch"
    from True hit have ds: "data_stage W rq rs c rv ps ch =
        after [CacheGet ''file-contents'' ?dkey] ?I"
      by (simp add: data_stage_def Let_def)
    with assms(1) have 1: "CacheGet ''file-contents'' ?tkey \<in> set (events ?I)"
      by simp
    from invoke_view_compile [OF 1 assms(2)] show ?thesis
      unfolding ds by (auto simp add: cache_set_same simp del: get_path.simps)
  next
    case miss: False
    with True assms obtain ctx pd where
      run: "runInNewContext W (snd (getDataProvider W (name c) (version c))) (data_context rs)
              = Inr ctx"
      and pd: "get_path ctx [''module'', ''exports'', ''data''] = Inr pd"
      and ok: "\<not> truthy (fst (getDataProvider W (name c) (version c)))"
      by (auto simp add: data_stage_def Let_def simp del: get_path.simps
            split: if_splits prod.splits sum.splits)
    let ?ch = "cache_set ''file-contents'' ?dkey pd ch"
    let ?I = "invoke W rq rs c rv ps pd (reqObj_of W rq rs c ps) ?ch"
    from True miss run pd ok have ds: "data_stage W rq rs c rv ps ch =
        after [CacheGet ''file-contents'' ?dkey, GetDataProvider (name c) (version c),
               RunInNewContext (snd (getDataProvider W (name c) (version c))) (data_context rs),
               CacheSet ''file-contents'' ?dkey pd] ?I"
      by (auto simp add: data_stage_def Let_def after_def simp del: get_path.simps
            split: prod.splits)
    with assms(1) have 1: "CacheGet ''file-contents'' ?tkey \<in> set (events ?I)"
      by simp
    from assms(2) have 2: "local (res_conf rs) \<or>
        \<not> truthy (cache_get ?ch ''file-contents'' ?tkey)"
      by simp
    from invoke_view_compile [OF 1 2] show ?thesis
      unfolding ds by (auto simp add: cache_set_same simp del: get_path.simps)
  qed
qed

text \<open>When the template stage is reached.\<close>

lemma returnComponent_reached:
  "\<not> truthy err \<Longrightarrow> headers_accept rq \<noteq> prerendered \<Longrightarrow>
     CacheGet ''file-contents'' (format_key (name c) (version c) ''template.js'')
       \<in> set (events (returnComponent W rq rs c rv ps err data ch))"
  by (simp add: returnComponent_def Let_def)

lemma invoke_reached:
  "Call g arg \<in> set (events (invoke W rq rs c rv ps f reqObj ch)) \<Longrightarrow>
   call W g arg = CallsBack err data \<Longrightarrow> \<not> truthy err \<Longrightarrow>
   headers_accept rq \<noteq> prerendered \<Longrightarrow>
     CacheGet ''file-contents'' (format_key (name c) (version c) ''template.js'')
       \<in> set (events (invoke W rq rs c rv ps f reqObj ch))"
  by (auto simp add: invoke_def returnComponent_no_call returnComponent_reached
        split: if_splits callback_outcome.splits)

lemma data_stage_reached:
  "Call g arg \<in> set (events (data_stage W rq rs c rv ps ch)) \<Longrightarrow>
   call W g arg = CallsBack err data \<Longrightarrow> \<not> truthy err \<Longrightarrow>
   headers_accept rq \<noteq> prerendered \<Longrightarrow>
     CacheGet ''file-contents'' (format_key (name c) (version c) ''template.js'')
       \<in> set (events (data_stage W rq rs c rv ps ch))"
  by (auto simp add: data_stage_def Let_def returnComponent_no_call
        split: if_splits prod.splits sum.splits dest: invoke_reached)

text \<open>
  C4. For a request whose component is found with valid parameters, and for both kinds
  of artifact (the data-provider function under the key \<open>name/version/server.js\<close>,
  read when the component declares a data-provider; the template function under
  \<open>name/version/template.js\<close>, read when a rendered request reaches the template
  stage, which it does when there is no data-provider or the data-provider function
  calls back without an error). In production mode, when the cache holds an entry (a
  truthy value, as every stored function is), the request makes no repository fetch
  and no run in the sandbox for that artifact, uses the stored artifact and leaves the
  entry as it was. When the cache holds none, the request fetches the source and runs
  it in the sandbox and, when that succeeds, calls \<open>cache.set\<close> with the artifact
  and uses it; a truthy artifact is then the entry the request leaves under the key.
  In local mode the fetch and the run are made on every request, whatever the cache
  holds, and the entry is overwritten in the same way.
\<close>

theorem artifact_cache:
  assumes "resolved W rq c"
  shows
  "(truthy (dataProvider (files (oc c))) \<and> \<not> local (res_conf rs) \<and>
    truthy (cache_get ch ''file-contents'' (format_key (name c) (version c) ''server.js'')) \<longrightarrow>
      (\<forall>n v. GetDataProvider n v
         \<notin> set (events (component_route W rq rs ch))) \<and>
      (\<forall>code. RunInNewContext code (data_context rs)
         \<notin> set (events (component_route W rq rs ch))) \<and>
      cache_after (component_route W rq rs ch)
          (''file-contents'', format_key (name c) (version c) ''server.js'')
        = ch (''file-contents'', format_key (name c) (version c) ''server.js'') \<and>
      (is_function (cache_get ch ''file-contents'' (format_key (name c) (version c) ''server.js'')) \<longrightarrow>
         Call (cache_get ch ''file-contents'' (format_key (name c) (version c) ''server.js''))
              (reqObj_of W rq rs c (sanitised W rq c))
           \<in> set (events (component_route W rq rs ch)))) \<and>
   (truthy (dataProvider (files (oc c))) \<and>
    (local (res_conf rs) \<or>
     \<not> truthy (cache_get ch ''file-contents'' (format_key (name c) (version c) ''server.js''))) \<longrightarrow>
      GetDataProvider (name c) (version c)
        \<in> set (events (component_route W rq rs ch)) \<and>
      (\<not> truthy (fst (getDataProvider W (name c) (version c))) \<longrightarrow>
         RunInNewContext (snd (getDataProvider W (name c) (version c))) (data_context rs)
           \<in> set (events (component_route W rq rs ch))) \<and>
      (\<forall>ctx processData.
         \<not> truthy (fst (getDataProvider W (name c) (version c))) \<and>
         runInNewContext W (snd (getDataProvider W (name c) (version c))) (data_context rs)
           = Inr ctx \<and>
         get_path ctx [''module'', ''exports'', ''data''] = Inr processData \<longrightarrow>
           CacheSet ''file-contents'' (format_key (name c) (version c) ''server.js'') processData
             \<in> set (events (component_route W rq rs ch)) \<and>
           (truthy processData \<longrightarrow>
              cache_after (component_route W rq rs ch)
                  (''file-contents'', format_key (name c) (version c) ''server.js'')
                = Some processData) \<and>
           (is_function processData \<longrightarrow>
              Call processData (reqObj_of W rq rs c (sanitised W rq c))
                \<in> set (events (component_route W rq rs ch))))) \<and>
   (headers_accept rq \<noteq> prerendered \<and>
    (\<not> truthy (dataProvider (files (oc c))) \<or>
     (\<exists>f err data.
        Call f (reqObj_of W rq rs c (sanitised W rq c))
          \<in> set (events (component_route W rq rs ch)) \<and>
        call W f (reqObj_of W rq rs c (sanitised W rq c)) = CallsBack err data \<and>
        \<not> truthy err)) \<longrightarrow>
      CacheGet ''file-contents'' (format_key (name c) (version c) ''template.js'')
        \<in> set (events (component_route W rq rs ch))) \<and>
   (CacheGet ''file-contents'' (format_key (name c) (version c) ''template.js'')
      \<in> set (events (component_route W rq rs ch)) \<and>
    \<not> local (res_conf rs) \<and>
    truthy (cache_get ch ''file-contents'' (format_key (name c) (version c) ''template.js'')) \<longrightarrow>
      (\<forall>n v. GetCompiledView n v
         \<notin> set (events (component_route W rq rs ch))) \<and>
      (\<forall>code. RunInNewContext code template_context
         \<notin> set (events (component_route W rq rs ch))) \<and>
      cache_after (component_route W rq rs ch)
          (''file-contents'', format_key (name c) (version c) ''template.js'')
        = ch (''file-contents'', format_key (name c) (version c) ''template.js'') \<and>
      (\<exists>data.
         RenderTemplate (cache_get ch ''file-contents'' (format_key (name c) (version c) ''template.js''))
           data (render_options W rs c (requested_version rq) (sanitised W rq c))
           \<in> set (events (component_route W rq rs ch)))) \<and>
   (CacheGet ''file-contents'' (format_key (name c) (version c) ''template.js'')
      \<in> set (events (component_route W rq rs ch)) \<and>
    (local (res_conf rs) \<or>
     \<not> truthy (cache_get ch ''file-contents'' (format_key (name c) (version c) ''template.js''))) \<longrightarrow>
      GetCompiledView (name c) (version c)
        \<in> set (events (component_route W rq rs ch)) \<and>
      RunInNewContext (snd (getCompiledView W (name c) (version c))) template_context
        \<in> set (events (component_route W rq rs ch)) \<and>
      (\<forall>ctx tpl.
         runInNewContext W (snd (getCompiledView W (name c) (version c))) template_context
           = Inr ctx \<and>
         get_path ctx [''oc'', ''components'', hashKey (template (files (oc c)))] = Inr tpl
         \<longrightarrow>
           CacheSet ''file-contents'' (format_key (name c) (version c) ''template.js'') tpl
             \<in> set (events (component_route W rq rs ch)) \<and>
           (truthy tpl \<longrightarrow>
              cache_after (component_route W rq rs ch)
                  (''file-contents'', format_key (name c) (version c) ''template.js'')
                = Some tpl) \<and>
           (\<exists>data.
              RenderTemplate tpl data (render_options W rs c (requested_version rq) (sanitised W rq c))
                \<in> set (events (component_route W rq rs ch)))))"
proof -
  let ?rv = "requested_version rq" and ?ps = "sanitised W rq c"
  let ?D = "data_stage W rq rs c ?rv ?ps ch"
  have ev: "events (component_route W rq rs ch) =
      GetComponent (params_componentName rq) (requested_version rq) # events ?D"
    and ca: "cache_after (component_route W rq rs ch) = cache_after ?D"
    by (simp_all add: component_route_resolved [OF assms])
  have dh: "(truthy (dataProvider (files (oc c))) \<and> \<not> local (res_conf rs) \<and>
      truthy (cache_get ch ''file-contents'' (format_key (name c) (version c) ''server.js'')) \<longrightarrow>
        (\<forall>n v. GetDataProvider n v
           \<notin> set (events ?D)) \<and>
        (\<forall>code. RunInNewContext code (data_context rs)
           \<notin> set (events ?D)) \<and>
        cache_after ?D
            (''file-contents'', format_key (name c) (version c) ''server.js'')
          = ch (''file-contents'', format_key (name c) (version c) ''server.js'') \<and>
        (is_function (cache_get ch ''file-contents'' (format_key (name c) (version c) ''server.js'')) \<longrightarrow>
           Call (cache_get ch ''file-contents'' (format_key (name c) (version c) ''server.js''))
                (reqObj_of W rq rs c ?ps)
             \<in> set (events ?D)))"
    using data_provider_hit [of c rs ch W rq ?rv ?ps] by blast
  have dh': "(truthy (dataProvider (files (oc c))) \<and> \<not> local (res_conf rs) \<and>
      truthy (cache_get ch ''file-contents'' (format_key (name c) (version c) ''server.js'')) \<longrightarrow>
        (\<forall>n v. GetDataProvider n v
           \<notin> set (events (component_route W rq rs ch))) \<and>
        (\<forall>code. RunInNewContext code (data_context rs)
           \<notin> set (events (component_route W rq rs ch))) \<and>
        cache_after (component_route W rq rs ch)
            (''file-contents'', format_key (name c) (version c) ''server.js'')
          = ch (''file-contents'', format_key (name c) (version c) ''server.js'') \<and>
        (is_function (cache_get ch ''file-contents'' (format_key (name c) (version c) ''server.js'')) \<longrightarrow>
           Call (cache_get ch ''file-contents'' (format_key (name c) (version c) ''server.js''))
                (reqObj_of W rq rs c (sanitised W rq c))
             \<in> set (events (component_route W rq rs ch))))"
    using dh unfolding ev ca by (auto simp del: get_path.simps)
  have dc: "(truthy (dataProvider (files (oc c))) \<and>
      (local (res_conf rs) \<or>
       \<not> truthy (cache_get ch ''file-contents'' (format_key (name c) (version c) ''server.js''))) \<longrightarrow>
        GetDataProvider (name c) (version c)
          \<in> set (events ?D) \<and>
        (\<not> truthy (fst (getDataProvider W (name c) (version c))) \<longrightarrow>
           RunInNewContext (snd (getDataProvider W (name c) (version c))) (data_context rs)
             \<in> set (events ?D)) \<and>
        (\<forall>ctx processData.
           \<not> truthy (fst (getDataProvider W (name c) (version c))) \<and>
           runInNewContext W (snd (getDataProvider W (name c) (version c))) (data_context rs)
             = Inr ctx \<and>
           get_path ctx [''module'', ''exports'', ''data''] = Inr processData \<longrightarrow>
             CacheSet ''file-contents'' (format_key (name c) (version c) ''server.js'') processData
               \<in> set (events ?D) \<and>
             (truthy processData \<longrightarrow>
                cache_after ?D
                    (''file-contents'', format_key (name c) (version c) ''server.js'')
                  = Some processData) \<and>
             (is_function processData \<longrightarrow>
                Call processData (reqObj_of W rq rs c ?ps)
                  \<in> set (events ?D))))"
    using data_provider_compile [of c rs ch W rq ?rv ?ps] by blast
  have dc': "(truthy (dataProvider (files (oc c))) \<and>
      (local (res_conf rs) \<or>
       \<not> truthy (cache_get ch ''file-contents'' (format_key (name c) (version c) ''server.js''))) \<longrightarrow>
        GetDataProvider (name c) (version c)
          \<in> set (events (component_route W rq rs ch)) \<and>
        (\<not> truthy (fst (getDataProvider W (name c) (version c))) \<longrightarrow>
           RunInNewContext (snd (getDataProvider W (name c) (version c))) (data_context rs)
             \<in> set (events (component_route W rq rs ch))) \<and>
        (\<forall>ctx processData.
           \<not> truthy (fst (getDataProvider W (name c) (version c))) \<and>
           runInNewContext W (snd (getDataProvider W (name c) (version c))) (data_context rs)
             = Inr ctx \<and>
           get_path ctx [''module'', ''exports'', ''data''] = Inr processData \<longrightarrow>
             CacheSet ''file-contents'' (format_key (name c) (version c) ''server.js'') processData
               \<in> set (events (component_route W rq rs ch)) \<and>
             (truthy processData \<longrightarrow>
                cache_after (component_route W rq rs ch)
                    (''file-contents'', format_key (name c) (version c) ''server.js'')
                  = Some processData) \<and>
             (is_function processData \<longrightarrow>
                Call processData (reqObj_of W rq rs c (sanitised W rq c))
                  \<in> set (events (component_route W rq rs ch)))))"
    using dc unfolding ev ca by (auto simp del: get_path.simps)
  have reach: "(headers_accept rq \<noteq> prerendered \<and>
      (\<not> truthy (dataProvider (files (oc c))) \<or>
       (\<exists>f err data.
          Call f (reqObj_of W rq rs c ?ps)
            \<in> set (events ?D) \<and>
          call W f (reqObj_of W rq rs c ?ps) = CallsBack err data \<and>
          \<not> truthy err)) \<longrightarrow>
        CacheGet ''file-contents'' (format_key (name c) (version c) ''template.js'')
          \<in> set (events ?D))"
    by (auto simp add: data_stage_no_provider returnComponent_reached
          dest: data_stage_reached)
  have reach': "(headers_accept rq \<noteq> prerendered \<and>
      (\<not> truthy (dataProvider (files (oc c))) \<or>
       (\<exists>f err data.
          Call f (reqObj_of W rq rs c (sanitised W rq c))
            \<in> set (events (component_route W rq rs ch)) \<and>
          call W f (reqObj_of W rq rs c (sanitised W rq c)) = CallsBack err data \<and>
          \<not> truthy err)) \<longrightarrow>
        CacheGet ''file-contents'' (format_key (name c) (version c) ''template.js'')
          \<in> set (events (component_route W rq rs ch)))"
    using reach unfolding ev ca by (auto simp del: get_path.simps)
  have vh: "(CacheGet ''file-contents'' (format_key (name c) (version c) ''template.js'')
        \<in> set (events ?D) \<and>
      \<not> local (res_conf rs) \<and>
      truthy (cache_get ch ''file-contents'' (format_key (name c) (version c) ''template.js'')) \<longrightarrow>
        (\<forall>n v. GetCompiledView n v
           \<notin> set (events ?D)) \<and>
        (\<forall>code. RunInNewContext code template_context
           \<notin> set (events ?D)) \<and>
        cache_after ?D
            (''file-contents'', format_key (name c) (version c) ''template.js'')
          = ch (''file-contents'', format_key (name c) (version c) ''template.js'') \<and>
        (\<exists>data.
           RenderTemplate (cache_get ch ''file-contents'' (format_key (name c) (version c) ''template.js''))
             data (render_options W rs c ?rv ?ps)
             \<in> set (events ?D)))"
    using data_stage_view_hit [of c W rq rs ?rv ?ps ch] by blast
  have vh': "(CacheGet ''file-contents'' (format_key (name c) (version c) ''template.js'')
        \<in> set (events (component_route W rq rs ch)) \<and>
      \<not> local (res_conf rs) \<and>
      truthy (cache_get ch ''file-contents'' (format_key (name c) (version c) ''template.js'')) \<longrightarrow>
        (\<forall>n v. GetCompiledView n v
           \<notin> set (events (component_route W rq rs ch))) \<and>
        (\<forall>code. RunInNewContext code template_context
           \<notin> set (events (component_route W rq rs ch))) \<and>
        cache_after (component_route W rq rs ch)
            (''file-contents'', format_key (name c) (version c) ''template.js'')
          = ch (''file-contents'', format_key (name c) (version c) ''template.js'') \<and>
        (\<exists>data.
           RenderTemplate (cache_get ch ''file-contents'' (format_key (name c) (version c) ''template.js''))
             data (render_options W rs c (requested_version rq) (sanitised W rq c))
             \<in> set (events (component_route W rq rs ch))))"
    using vh unfolding ev ca by (auto simp del: get_path.simps)
  have vc: "(CacheGet ''file-contents'' (format_key (name c) (version c) ''template.js'')
        \<in> set (events ?D) \<and>
      (local (res_conf rs) \<or>
       \<not> truthy (cache_get ch ''file-contents'' (format_key (name c) (version c) ''template.js''))) \<longrightarrow>
        GetCompiledView (name c) (version c)
          \<in> set (events ?D) \<and>
        RunInNewContext (snd (getCompiledView W (name c) (version c))) template_context
          \<in> set (events ?D) \<and>
        (\<forall>ctx tpl.
           runInNewContext W (snd (getCompiledView W (name c) (version c))) template_context
             = Inr ctx \<and>
           get_path ctx [''oc'', ''components'', hashKey (template (files (oc c)))] = Inr tpl
           \<longrightarrow>
             CacheSet ''file-contents'' (format_key (name c) (version c) ''template.js'') tpl
               \<in> set (events ?D) \<and>
             (truthy tpl \<longrightarrow>
                cache_after ?D
                    (''file-contents'', format_key (name c) (version c) ''template.js'')
                  = Some tpl) \<and>
             (\<exists>data.
                RenderTemplate tpl data (render_options W rs c ?rv ?ps)
                  \<in> set (events ?D))))"
    using data_stage_view_compile [of c W rq rs ?rv ?ps ch] by blast
  have vc': "(CacheGet ''file-contents'' (format_key (name c) (version c) ''template.js'')
        \<in> set (events (component_route W rq rs ch)) \<and>
      (local (res_conf rs) \<or>
       \<not> truthy (cache_get ch ''file-contents'' (format_key (name c) (version c) ''template.js''))) \<longrightarrow>
        GetCompiledView (name c) (version c)
          \<in> set (events (component_route W rq rs ch)) \<and>
        RunInNewContext (snd (getCompiledView W (name c) (version c))) template_context
          \<in> set (events (component_route W rq rs ch)) \<and>
        (\<forall>ctx tpl.
           runInNewContext W (snd (getCompiledView W (name c) (version c))) template_context
             = Inr ctx \<and>
           get_path ctx [''oc'', ''components'', hashKey (template (files (oc c)))] = Inr tpl
           \<longrightarrow>
             CacheSet ''file-contents'' (format_key (name c) (version c) ''template.js'') tpl
               \<in> set (events (component_route W rq rs ch)) \<and>
             (truthy tpl \<longrightarrow>
                cache_after (component_route W rq rs ch)
                    (''file-contents'', format_key (name c) (version c) ''template.js'')
                  = Some tpl) \<and>
             (\<exists>data.
                RenderTemplate tpl data (render_options W rs c (requested_version rq) (sanitised W rq c))
                  \<in> set (events (component_route W rq rs ch)))))"
    using vc unfolding ev ca by (auto simp del: get_path.simps)
  show ?thesis
    by (rule conjI [OF dh' conjI [OF dc' conjI [OF reach' conjI [OF vh' vc']]]])
qed

lemma greeter_first_request:
  "events (component_route demo (rendered_request ''greeter'') (registry_res False) Map.empty)
     = GetComponent (Str ''greeter'') (Str '''') # greeter_compiles False"
  "cache_after (component_route demo (rendered_request ''greeter'') (registry_res False)
                  Map.empty) = warm_cache"
  by (simp_all add: greeter_compiles_def greeter_reqObj_def greeter_options_def
        greeter_data_def warm_cache_def eval_defs)

lemma greeter_second_request:
  "events (component_route demo (rendered_request ''greeter'') (registry_res False) warm_cache) =
     [GetComponent (Str ''greeter'') (Str ''''),
      CacheGet ''file-contents'' ''greeter/2.0.0/server.js'',
      Call (Closure 1) greeter_reqObj,
      CacheGet ''file-contents'' ''greeter/2.0.0/template.js'',
      RenderTemplate (Closure 3) greeter_data greeter_options]"
  "cache_after (component_route demo (rendered_request ''greeter'') (registry_res False)
                  warm_cache) = warm_cache"
  by (simp_all add: greeter_reqObj_def greeter_options_def greeter_data_def warm_cache_def
        eval_defs)

lemma greeter_local_request:
  "events (component_route demo (rendered_request ''greeter'') (registry_res True) warm_cache)
     = GetComponent (Str ''greeter'') (Str '''') # greeter_compiles True"
  "cache_after (component_route demo (rendered_request ''greeter'') (registry_res True)
                  warm_cache) = warm_cache"
  by (simp_all add: greeter_compiles_def greeter_reqObj_def greeter_options_def
        greeter_data_def warm_cache_def eval_defs fun_upd_twist)

theorem artifact_cache_witness:
  "resolved demo (rendered_request ''greeter'') greeter \<and>
   events (demo_run (rendered_request ''greeter''))
     = GetComponent (Str ''greeter'') (Str '''') # greeter_compiles False \<and>
   cache_after (demo_run (rendered_request ''greeter''))
       (''file-contents'', ''greeter/2.0.0/server.js'') = Some (Closure 1) \<and>
   cache_after (demo_run (rendered_request ''greeter''))
       (''file-contents'', ''greeter/2.0.0/template.js'') = Some (Closure 3) \<and>
   cache_after (demo_run (rendered_request ''greeter'')) = warm_cache \<and>
   events (component_route demo (rendered_request ''greeter'') (registry_res False) warm_cache) =
     [GetComponent (Str ''greeter'') (Str ''''),
      CacheGet ''file-contents'' ''greeter/2.0.0/server.js'',
      Call (Closure 1) greeter_reqObj,
      CacheGet ''file-contents'' ''greeter/2.0.0/template.js'',
      RenderTemplate (Closure 3) greeter_data greeter_options] \<and>
   (\<forall>n v. GetDataProvider n v
      \<notin> set (events (component_route demo (rendered_request ''greeter'') (registry_res False)
                       warm_cache))) \<and>
   (\<forall>n v. GetCompiledView n v
      \<notin> set (events (component_route demo (rendered_request ''greeter'') (registry_res False)
                       warm_cache))) \<and>
   cache_after (component_route demo (rendered_request ''greeter'') (registry_res False)
                  warm_cache) (''file-contents'', ''greeter/2.0.0/server.js'')
     = warm_cache (''file-contents'', ''greeter/2.0.0/server.js'') \<and>
   cache_after (component_route demo (rendered_request ''greeter'') (registry_res False)
                  warm_cache) (''file-contents'', ''greeter/2.0.0/template.js'')
     = warm_cache (''file-contents'', ''greeter/2.0.0/template.js'') \<and>
   events (component_route demo (rendered_request ''greeter'') (registry_res True) warm_cache)
     = GetComponent (Str ''greeter'') (Str '''') # greeter_compiles True \<and>
   GetDataProvider ''greeter'' ''2.0.0''
     \<in> set (events (component_route demo (rendered_request ''greeter'') (registry_res True)
                       warm_cache)) \<and>
   GetCompiledView ''greeter'' ''2.0.0''
     \<in> set (events (component_route demo (rendered_request ''greeter'') (registry_res True)
                       warm_cache)) \<and>
   cache_after (component_route demo (rendered_request ''greeter'') (registry_res True)
                  warm_cache) (''file-contents'', ''greeter/2.0.0/server.js'') = Some (Closure 1)"
proof -
  let ?rq = "rendered_request ''greeter''"
  let ?dkey = "format_key (name greeter) (version greeter) ''server.js''"
  let ?tkey = "format_key (name greeter) (version greeter) ''template.js''"
  note first = artifact_cache [OF sample_resolved(2), of "registry_res False" Map.empty]
  note second = artifact_cache [OF sample_resolved(2), of "registry_res False" warm_cache]
  note dev = artifact_cache [OF sample_resolved(2), of "registry_res True" warm_cache]
  have src: "\<not> truthy (fst (getDataProvider demo (name greeter) (version greeter))) \<and>
      runInNewContext demo (snd (getDataProvider demo (name greeter) (version greeter)))
        (data_context (registry_res dv)) = Inr (greeter_data_context dv) \<and>
      get_path (greeter_data_context dv) [''module'', ''exports'', ''data'']
        = Inr (Closure 1)" for dv
    by (simp add: sample_reads del: get_path.simps)
  have view: "runInNewContext demo (snd (getCompiledView demo (name greeter) (version greeter)))
        template_context = Inr (view_context ''def456'' 3) \<and>
      get_path (view_context ''def456'' 3)
        [''oc'', ''components'', hashKey (template (files (oc greeter)))] = Inr (Closure 3)"
    by (simp add: sample_reads del: get_path.simps)
  have m1: "truthy (dataProvider (files (oc greeter))) \<and>
      (local (res_conf (registry_res False)) \<or>
       \<not> truthy (cache_get Map.empty ''file-contents'' ?dkey))"
    by (simp add: sample_reads)
  have v1: "CacheGet ''file-contents'' ?tkey
        \<in> set (events (component_route demo ?rq (registry_res False) Map.empty)) \<and>
      (local (res_conf (registry_res False)) \<or>
       \<not> truthy (cache_get Map.empty ''file-contents'' ?tkey))"
    by (simp add: sample_reads greeter_first_request greeter_compiles_def)
  have 1: "cache_after (demo_run ?rq) (''file-contents'', ''greeter/2.0.0/server.js'')
             = Some (Closure 1)"
    using first [THEN conjunct2, THEN conjunct1, rule_format, OF m1,
        THEN conjunct2, THEN conjunct2, rule_format, OF src [of False]]
    by (simp add: sample_reads demo_run_def del: One_nat_def)
  have 2: "cache_after (demo_run ?rq) (''file-contents'', ''greeter/2.0.0/template.js'')
             = Some (Closure 3)"
    using first [THEN conjunct2, THEN conjunct2, THEN conjunct2, THEN conjunct2, rule_format,
        OF v1, THEN conjunct2, THEN conjunct2, rule_format, OF view]
    by (simp add: sample_reads demo_run_def)
  have m2: "truthy (dataProvider (files (oc greeter))) \<and>
      \<not> local (res_conf (registry_res False)) \<and>
      truthy (cache_get warm_cache ''file-contents'' ?dkey)"
    by (simp add: sample_reads)
  have v2: "CacheGet ''file-contents'' ?tkey
        \<in> set (events (component_route demo ?rq (registry_res False) warm_cache)) \<and>
      \<not> local (res_conf (registry_res False)) \<and>
      truthy (cache_get warm_cache ''file-contents'' ?tkey)"
    by (simp add: sample_reads greeter_second_request)
  have 3: "(\<forall>n v. GetDataProvider n v
        \<notin> set (events (component_route demo ?rq (registry_res False) warm_cache))) \<and>
      cache_after (component_route demo ?rq (registry_res False) warm_cache)
          (''file-contents'', ''greeter/2.0.0/server.js'')
        = warm_cache (''file-contents'', ''greeter/2.0.0/server.js'')"
    using second [THEN conjunct1, rule_format, OF m2]
    by (simp add: sample_reads)
  have 4: "(\<forall>n v. GetCompiledView n v
        \<notin> set (events (component_route demo ?rq (registry_res False) warm_cache))) \<and>
      cache_after (component_route demo ?rq (registry_res False) warm_cache)
          (''file-contents'', ''greeter/2.0.0/template.js'')
        = warm_cache (''file-contents'', ''greeter/2.0.0/template.js'')"
    using second [THEN conjunct2, THEN conjunct2, THEN conjunct2, THEN conjunct1, rule_format,
        OF v2]
    by (simp add: sample_reads)
  have m3: "truthy (dataProvider (files (oc greeter))) \<and>
      (local (res_conf (registry_res True)) \<or>
       \<not> truthy (cache_get warm_cache ''file-contents'' ?dkey))"
    by (simp add: sample_reads)
  have v3: "CacheGet ''file-contents'' ?tkey
        \<in> set (events (component_route demo ?rq (registry_res True) warm_cache)) \<and>
      (local (res_conf (registry_res True)) \<or>
       \<not> truthy (cache_get warm_cache ''file-contents'' ?tkey))"
    by (simp add: sample_reads greeter_local_request greeter_compiles_def)
  note d3 = dev [THEN conjunct2, THEN conjunct1, rule_format, OF m3]
  have 5: "GetDataProvider ''greeter'' ''2.0.0''
        \<in> set (events (component_route demo ?rq (registry_res True) warm_cache))"
    using d3 [THEN conjunct1] by (simp add: sample_reads)
  have 6: "cache_after (component_route demo ?rq (registry_res True) warm_cache)
        (''file-contents'', ''greeter/2.0.0/server.js'') = Some (Closure 1)"
    using d3 [THEN conjunct2, THEN conjunct2, rule_format, OF src [of True]]
    by (simp add: sample_reads del: One_nat_def)
  have 7: "GetCompiledView ''greeter'' ''2.0.0''
        \<in> set (events (component_route demo ?rq (registry_res True) warm_cache))"
    using dev [THEN conjunct2, THEN conjunct2, THEN conjunct2, THEN conjunct2, rule_format,
        OF v3, THEN conjunct1]
    by (simp add: sample_reads)
  from 1 2 3 4 5 6 7 sample_resolved(2) greeter_first_request greeter_second_request
    greeter_local_request
  show ?thesis by (simp add: demo_run_def del: One_nat_def)
qed

subsection \<open>Exceptions and reported errors\<close>







end
